theory Spec2Isabelle
  imports Main "HOL-Library.Sublist"
begin

section \<open>Regular expressions of \<open>pkgtailor.js\<close>\<close>

text \<open>
  The two deletion predicates of \<open>src/lib/pkgtailor.js\<close> are JavaScript regular
  expressions applied with \<open>RegExp.prototype.test\<close>. The expressions use only literal
  characters, the negated one-character class \<open>[^c]\<close>, the range \<open>[a-b]\<close>, grouping,
  alternation, \<open>+\<close> and a final \<open>$\<close>. They are embedded as values of a datatype \<open>rx\<close>;
  \<open>matches\<close> decides by derivatives whether a whole string is in the language of an
  expression. \<open>Zero\<close> and \<open>One\<close> (the empty language and the empty word) do not occur in
  the source; the derivatives need them.

  A path is a \<open>string\<close>; one \<open>char\<close> stands for one UTF-16 code unit of the JavaScript
  string (the model covers code units below 256).
\<close>

datatype rx =
    Zero
  | One
  | Chr char
  | NotChr char
  | Range char char
  | Alt rx rx
  | Cat rx rx
  | Star rx

text \<open>\<open>r+\<close> is \<open>r\<close> followed by \<open>r*\<close>; a literal string is the sequence of its characters.\<close>

definition Plus :: "rx \<Rightarrow> rx" where
  "Plus r = Cat r (Star r)"

fun Lit :: "string \<Rightarrow> rx" where
  "Lit [] = One"
| "Lit (c # cs) = Cat (Chr c) (Lit cs)"

definition in_range :: "char \<Rightarrow> char \<Rightarrow> char \<Rightarrow> bool" where
  "in_range lo hi c \<longleftrightarrow> (of_char lo :: nat) \<le> of_char c \<and> (of_char c :: nat) \<le> of_char hi"

fun nullable :: "rx \<Rightarrow> bool" where
  "nullable Zero = False"
| "nullable One = True"
| "nullable (Chr a) = False"
| "nullable (NotChr a) = False"
| "nullable (Range lo hi) = False"
| "nullable (Alt r s) = (nullable r \<or> nullable s)"
| "nullable (Cat r s) = (nullable r \<and> nullable s)"
| "nullable (Star r) = True"

fun deriv :: "char \<Rightarrow> rx \<Rightarrow> rx" where
  "deriv c Zero = Zero"
| "deriv c One = Zero"
| "deriv c (Chr a) = (if c = a then One else Zero)"
| "deriv c (NotChr a) = (if c \<noteq> a then One else Zero)"
| "deriv c (Range lo hi) = (if in_range lo hi c then One else Zero)"
| "deriv c (Alt r s) = Alt (deriv c r) (deriv c s)"
| "deriv c (Cat r s) =
     (if nullable r then Alt (Cat (deriv c r) s) (deriv c s) else Cat (deriv c r) s)"
| "deriv c (Star r) = Cat (deriv c r) (Star r)"

definition matches :: "rx \<Rightarrow> string \<Rightarrow> bool" where
  "matches r s = nullable (fold deriv s r)"

text \<open>
  \<open>/body$/.test(s)\<close>: the expression is not anchored at its start, so a match may begin
  at any index of \<open>s\<close>; without the \<open>m\<close> flag the final \<open>$\<close> only holds at the end of
  the input. The test therefore succeeds iff some suffix of \<open>s\<close> is in the language of
  \<open>body\<close>.
\<close>

definition test_end :: "rx \<Rightarrow> string \<Rightarrow> bool" where
  "test_end body s = list_ex (matches body) (suffixes s)"

text \<open>The language of an expression, the specification that \<open>matches\<close> is proved against.\<close>

definition conc :: "string set \<Rightarrow> string set \<Rightarrow> string set" where
  "conc A B = {a @ b | a b. a \<in> A \<and> b \<in> B}"

inductive_set star :: "string set \<Rightarrow> string set" for A :: "string set" where
  star_nil: "[] \<in> star A"
| star_app: "a \<in> A \<Longrightarrow> w \<in> star A \<Longrightarrow> a @ w \<in> star A"

fun lang :: "rx \<Rightarrow> string set" where
  "lang Zero = {}"
| "lang One = {[]}"
| "lang (Chr a) = {[a]}"
| "lang (NotChr a) = {[c] | c. c \<noteq> a}"
| "lang (Range lo hi) = {[c] | c. in_range lo hi c}"
| "lang (Alt r s) = lang r \<union> lang s"
| "lang (Cat r s) = conc (lang r) (lang s)"
| "lang (Star r) = star (lang r)"

section \<open>Environment definitions\<close>

text \<open>The state tokens (\<open>cStateNotTailored\<close> ... \<open>cStates\<close>, lines 40 to 49).\<close>

definition cStateNotTailored :: string where
  "cStateNotTailored = ''untailored''"

definition cStateUndefined :: string where
  "cStateUndefined = ''undefined''"

definition cStateLambdaWithNode4 :: string where
  "cStateLambdaWithNode4 = ''AWS Lambda with Node 4.x''"

definition cStateLambdaWithNode6 :: string where
  "cStateLambdaWithNode6 = ''AWS Lambda with Node 6.x''"

definition cStates :: "string list" where
  "cStates = [cStateNotTailored, cStateUndefined, cStateLambdaWithNode4, cStateLambdaWithNode6]"

text \<open>
  \<open>c32BitPathPattern = /((\/lib)|(\/linux-x86-32))\/[^\/]+$/\<close> (line 61), without its
  final \<open>$\<close>, which \<open>test_end\<close> supplies.
\<close>

definition c32BitPathPattern :: rx where
  "c32BitPathPattern =
     Cat (Alt (Lit ''/lib'') (Lit ''/linux-x86-32''))
         (Cat (Chr (CHR ''/'')) (Plus (NotChr (CHR ''/''))))"

text \<open>
  \<open>/_(4[^6]|[^4][0-9])\.node$/\<close> (line 71) and \<open>/_(4[^8]|[^4][0-9])\.node$/\<close> (line 83)
  differ in one character, the second digit of the tag that is kept.
\<close>

definition abiPattern :: "char \<Rightarrow> rx" where
  "abiPattern k =
     Cat (Chr (CHR ''_''))
         (Cat (Alt (Cat (Chr (CHR ''4'')) (NotChr k))
                   (Cat (NotChr (CHR ''4'')) (Range (CHR ''0'') (CHR ''9''))))
              (Lit ''.node''))"

record EnvDef =
  name :: string
  deleteFilePredicate :: "string \<Rightarrow> bool"

definition cLambdaV4EnvDef :: EnvDef where
  "cLambdaV4EnvDef =
     \<lparr> name = cStateLambdaWithNode4,
       deleteFilePredicate =
         (\<lambda>fn. test_end (abiPattern (CHR ''6'')) fn \<or> test_end c32BitPathPattern fn) \<rparr>"

definition cLambdaV6EnvDef :: EnvDef where
  "cLambdaV6EnvDef =
     \<lparr> name = cStateLambdaWithNode6,
       deleteFilePredicate =
         (\<lambda>fn. test_end (abiPattern (CHR ''8'')) fn \<or> test_end c32BitPathPattern fn) \<rparr>"

definition is_digit :: "char \<Rightarrow> bool" where
  "is_digit c \<longleftrightarrow> c \<in> set ''0123456789''"

section \<open>The file system as the program sees it\<close>

text \<open>
  \<open>os.platform()\<close> is only compared with \<open>"win32"\<close> (line 183).
\<close>

datatype platform = Win32 | Posix

text \<open>
  What \<open>fs\<close> finds beneath the dependency folder. \<open>File r w d\<close> is a regular file:
  \<open>r\<close> and \<open>w\<close> are the answers of \<open>accessSync\<close> to \<open>R_OK\<close> and \<open>W_OK\<close>, \<open>d\<close> says
  whether \<open>unlinkSync\<close> on it succeeds. \<open>Dir\<close> is a directory that \<open>readdirSync\<close> lists,
  \<open>LockedDir\<close> one on which \<open>readdirSync\<close> throws, \<open>Dangling\<close> an entry on which
  \<open>statSync\<close> throws (a link to nothing), \<open>Special\<close> an entry that is neither
  \<open>isDirectory()\<close> nor \<open>isFile()\<close>. The tree is finite: links that form a cycle are
  outside the model.
\<close>

datatype node =
    File bool bool bool
  | Dir "(string \<times> node) list"
  | LockedDir
  | Dangling
  | Special

text \<open>
  What lies at \<open>cStateFileName\<close>: nothing, a regular file with its two access answers and
  its content, or a directory with its two access answers.
\<close>

datatype spath =
    Missing
  | RegFile bool bool string
  | Directory bool bool

datatype syscall = Access | ReadFile | WriteFile | Readdir | Stat | Unlink

text \<open>
  Every value that the program can throw. The first four are the \<open>Error\<close> objects that
  the source creates itself (lines 148, 151, 218, 228); \<open>TypeError_name_of_undefined\<close>
  is what reading \<open>options.environment.name\<close> throws while \<open>options.environment\<close> is
  \<open>undefined\<close>; \<open>FsError\<close> is an exception of a call into \<open>fs\<close>, with the path it was
  called on.
\<close>

datatype error =
    Error_FailedToReadState
  | Error_StateFileNotAccessible
  | Error_ModuleNotFound
  | Error_NoEnvironment
  | TypeError_name_of_undefined
  | FsError syscall string

text \<open>The changes made to the file system, in the order they were made.\<close>

datatype fs_op = WroteState string | Unlinked string

text \<open>
  \<open>cStateFileName\<close> and the two \<open>dependencyLocations\<close> are \<open>path.join\<close>s on
  \<open>__dirname\<close>, which is only known when the program runs: they are fields of the world.
  The state file lies in \<open>__dirname\<close> itself and the dependency folders lie outside it, so
  the state file is no node of the dependency trees.
\<close>

record world =
  platform :: platform
  cStateFileName :: string
  state_file :: spath
  nested_location :: string
  nested_module :: "node option"
  sibling_location :: string
  sibling_module :: "node option"
  fs_log :: "fs_op list"

text \<open>
  The lines that \<open>console.log\<close> prints, one constructor for each call in the source:
  \<^item> \<open>Msg_UnknownState st\<close>: \<open>ERROR: npm module is in an unknown tailoring state 'st'\<close> (368)
  \<^item> \<open>Msg_UndefinedState\<close>: \<open>ERROR: Previous tailoring state left npm module in an
    undefined state. Please re-install npm module.\<close> (370)
  \<^item> \<open>Msg_AlreadyTailored st\<close>: \<open>The npm module has been already tailored for environment
    'st'\<close> (373)
  \<^item> \<open>Msg_Conflict st\<close>: \<open>ERROR: The npm module has been already tailored for environment
    'st\<close> (375)
  \<^item> \<open>Msg_PleaseReinstall e\<close>: \<open>Please uninstall and re-install @dynatrace/oneagent module
    to tailor for environment 'e'\<close> (376)
  \<^item> \<open>Msg_Tailoring e\<close>: \<open>Tailoring npm module for environment 'e'\<close> (239)
  \<^item> \<open>Msg_DryRunHeader\<close>: \<open>Dry run - following files will be deleted from npm module\<close> (242)
  \<^item> \<open>Msg_DryRunFile fn\<close>: the indented file name (246)
  \<^item> \<open>Msg_Blank\<close>: \<open>console.log()\<close> (248, 285, 304)
  \<^item> \<open>Msg_Deleting fn\<close>: \<open>deleting file 'fn'\<close> (254)
  \<^item> \<open>Msg_StateNotTailored\<close>, \<open>Msg_StateTailored st\<close>: the two \<open>TAILORING STATE:\<close>
    lines (267, 269, 271)
  \<^item> \<open>Msg_UnknownOption o\<close>: \<open>unknown command line option 'o'\<close> (330)
  \<^item> \<open>Msg_Usage\<close>: the usage text (298)
  \<^item> \<open>Msg_Option n k v\<close>: option \<open>n\<close>, \<open>k\<close> dots, its documentation \<open>v\<close> (301)
  \<^item> \<open>Msg_Error e\<close>: \<open>Error encountered: 'e.message'\<close> (345)
  \<^item> \<open>Msg_Result dry env ok\<close>: \<open>[DRY RUN] Tailoring npm module for environment 'env':
    SUCCEEDED\<close> or \<open>FAILED\<close>, the marker and the environment when present (352).
  The output of \<open>debug\<close> is not modelled.
\<close>

datatype out =
    Msg_UnknownState string
  | Msg_UndefinedState
  | Msg_AlreadyTailored string
  | Msg_Conflict string
  | Msg_PleaseReinstall string
  | Msg_Tailoring string
  | Msg_DryRunHeader
  | Msg_DryRunFile string
  | Msg_Blank
  | Msg_Deleting string
  | Msg_StateNotTailored
  | Msg_StateTailored string
  | Msg_UnknownOption string
  | Msg_Usage
  | Msg_Option string nat string
  | Msg_Error error
  | Msg_Result bool "string option" bool

text \<open>
  The global \<open>options\<close> (line 128), and the state of one run of the program: the file
  system, the two globals \<open>options\<close> and \<open>persistedTailoringState\<close>, and what has been
  printed.
\<close>

record Options =
  environment :: "EnvDef option"
  dryRun :: bool

record proc =
  fs :: world
  options :: Options
  persistedTailoringState :: "string option"
  console :: "out list"

definition log :: "out \<Rightarrow> proc \<Rightarrow> proc" where
  "log m s = s\<lparr>console := console s @ [m]\<rparr>"

subsection \<open>The state file\<close>

text \<open>\<open>fs.accessSync(cStateFileName, F_OK | R_OK | W_OK)\<close> returns without throwing.\<close>

fun state_file_access :: "spath \<Rightarrow> bool" where
  "state_file_access Missing = False"
| "state_file_access (RegFile r w c) = (r \<and> w)"
| "state_file_access (Directory r w) = (r \<and> w)"

text \<open>\<open>fs.readFileSync(cStateFileName, "utf-8")\<close>; \<open>None\<close> when it throws.\<close>

fun state_file_read :: "spath \<Rightarrow> string option" where
  "state_file_read Missing = None"
| "state_file_read (RegFile r w c) = (if r then Some c else None)"
| "state_file_read (Directory r w) = None"

text \<open>
  \<open>tryReadStateFile\<close> (lines 139 to 154). The inner \<open>try\<close> lies inside the outer one, so
  the error thrown at line 148 is caught at line 150 and replaced.
\<close>

definition tryReadStateFile :: "world \<Rightarrow> error + string" where
  "tryReadStateFile w =
     (case (if state_file_access (state_file w)
            then (case state_file_read (state_file w) of
                    Some state \<Rightarrow> Inr state
                  | None \<Rightarrow> Inl Error_FailedToReadState)
            else Inl (FsError Access (cStateFileName w))) of
        Inl e \<Rightarrow> Inl Error_StateFileNotAccessible
      | Inr state \<Rightarrow> Inr state)"

text \<open>
  \<open>writeStateFile\<close> (lines 160 to 162). \<open>fs.writeFileSync\<close> replaces the content of a
  writable file, creates a missing one (its folder is taken to allow that) and throws on
  anything else. A statement of the source is modelled as a function from the state to
  the error it throws, if any, and the state after it.
\<close>

definition writeStateFile :: "string \<Rightarrow> proc \<Rightarrow> error option \<times> proc" where
  "writeStateFile state s =
     (let w = fs s;
          written = (\<lambda>f. s\<lparr>fs := w\<lparr>state_file := f, fs_log := fs_log w @ [WroteState state]\<rparr>\<rparr>)
      in case state_file w of
           Missing \<Rightarrow> (None, written (RegFile True True state))
         | RegFile r wr c \<Rightarrow>
             if wr then (None, written (RegFile r wr state))
             else (Some (FsError WriteFile (cStateFileName w)), s)
         | Directory r wr \<Rightarrow> (Some (FsError WriteFile (cStateFileName w)), s))"

subsection \<open>Listing the dependency folder\<close>

text \<open>
  \<open>path.join(folderName, e)\<close> for a normalised \<open>folderName\<close> without a final separator
  and an entry name \<open>e\<close> of \<open>readdirSync\<close>: the two joined by the separator of the
  platform.
\<close>

definition backslash :: char where
  "backslash = CHR 0x5C"

definition path_join :: "platform \<Rightarrow> string \<Rightarrow> string \<Rightarrow> string" where
  "path_join pf folderName e = folderName @ (if pf = Win32 then [backslash] else ''/'') @ e"

text \<open>\<open>f.replace(/\\/g, "/").toLowerCase()\<close> (line 185); letters outside ASCII are not modelled.\<close>

definition toLowerCase_char :: "char \<Rightarrow> char" where
  "toLowerCase_char c =
     (case map_of (zip ''ABCDEFGHIJKLMNOPQRSTUVWXYZ'' ''abcdefghijklmnopqrstuvwxyz'') c of
        Some l \<Rightarrow> l
      | None \<Rightarrow> c)"

definition toLowerCase :: "string \<Rightarrow> string" where
  "toLowerCase f = map toLowerCase_char f"

definition replace_backslashes :: "string \<Rightarrow> string" where
  "replace_backslashes f = map (\<lambda>c. if c = backslash then CHR ''/'' else c) f"

definition win32_normalize :: "string \<Rightarrow> string" where
  "win32_normalize f = toLowerCase (replace_backslashes f)"

text \<open>
  \<open>scanFolder\<close> (lines 169 to 188); the second argument is the node that the file system
  has at \<open>folderName\<close>. \<open>scanEntries\<close> is the \<open>forEach\<close> over the entries.
\<close>

fun scanFolder :: "platform \<Rightarrow> string \<Rightarrow> node \<Rightarrow> error + string list"
  and scanEntries :: "platform \<Rightarrow> string \<Rightarrow> (string \<times> node) list \<Rightarrow> error + string list"
where
  "scanFolder pf folderName (Dir entries) =
     (case scanEntries pf folderName entries of
        Inl err \<Rightarrow> Inl err
      | Inr files \<Rightarrow> Inr (if pf = Win32 then map win32_normalize files else files))"
| "scanFolder pf folderName (File r w d) = Inl (FsError Readdir folderName)"
| "scanFolder pf folderName LockedDir = Inl (FsError Readdir folderName)"
| "scanFolder pf folderName Dangling = Inl (FsError Readdir folderName)"
| "scanFolder pf folderName Special = Inl (FsError Readdir folderName)"
| "scanEntries pf folderName [] = Inr []"
| "scanEntries pf folderName ((nm, n) # entries) =
     (let e = path_join pf folderName nm in
      case n of
        Dangling \<Rightarrow> Inl (FsError Stat e)
      | Special \<Rightarrow> scanEntries pf folderName entries
      | File r w d \<Rightarrow>
          (case scanEntries pf folderName entries of
             Inl err \<Rightarrow> Inl err
           | Inr files \<Rightarrow> Inr (e # files))
      | _ \<Rightarrow>
          (case scanFolder pf e n of
             Inl err \<Rightarrow> Inl err
           | Inr found \<Rightarrow>
               (case scanEntries pf folderName entries of
                  Inl err \<Rightarrow> Inl err
                | Inr files \<Rightarrow> Inr (found @ files))))"

text \<open>
  The paths of the regular files beneath a folder as \<open>path.join\<close> builds them, in the
  order of the listing and before any normalisation: the list that the enumeration is
  compared with.
\<close>

fun raw_paths :: "platform \<Rightarrow> string \<Rightarrow> node \<Rightarrow> string list"
  and raw_entry_paths :: "platform \<Rightarrow> string \<Rightarrow> (string \<times> node) list \<Rightarrow> string list"
where
  "raw_paths pf p (Dir entries) = raw_entry_paths pf p entries"
| "raw_paths pf p (File r w d) = [p]"
| "raw_paths pf p LockedDir = []"
| "raw_paths pf p Dangling = []"
| "raw_paths pf p Special = []"
| "raw_entry_paths pf p [] = []"
| "raw_entry_paths pf p ((nm, n) # entries) =
     raw_paths pf (path_join pf p nm) n @ raw_entry_paths pf p entries"

subsection \<open>Access to and removal of listed files\<close>

text \<open>
  The operating system resolves a path to a file. On \<open>win32\<close> it does so without regard
  to case and takes either separator, so two paths name the same file when their
  normal forms agree.
\<close>

definition same_path :: "platform \<Rightarrow> string \<Rightarrow> string \<Rightarrow> bool" where
  "same_path pf p q =
     (if pf = Win32 then win32_normalize p = win32_normalize q else p = q)"

fun find_file :: "platform \<Rightarrow> string \<Rightarrow> string \<Rightarrow> node \<Rightarrow> node option"
  and find_entries :: "platform \<Rightarrow> string \<Rightarrow> string \<Rightarrow> (string \<times> node) list \<Rightarrow> node option"
where
  "find_file pf fn p (File r w d) = (if same_path pf p fn then Some (File r w d) else None)"
| "find_file pf fn p (Dir entries) = find_entries pf fn p entries"
| "find_file pf fn p LockedDir = None"
| "find_file pf fn p Dangling = None"
| "find_file pf fn p Special = None"
| "find_entries pf fn p [] = None"
| "find_entries pf fn p ((nm, n) # entries) =
     (case find_file pf fn (path_join pf p nm) n of
        Some f \<Rightarrow> Some f
      | None \<Rightarrow> find_entries pf fn p entries)"

fun remove_file :: "platform \<Rightarrow> string \<Rightarrow> string \<Rightarrow> node \<Rightarrow> node option"
  and remove_entries ::
    "platform \<Rightarrow> string \<Rightarrow> string \<Rightarrow> (string \<times> node) list \<Rightarrow> (string \<times> node) list"
where
  "remove_file pf fn p (File r w d) = (if same_path pf p fn then None else Some (File r w d))"
| "remove_file pf fn p (Dir entries) = Some (Dir (remove_entries pf fn p entries))"
| "remove_file pf fn p LockedDir = Some LockedDir"
| "remove_file pf fn p Dangling = Some Dangling"
| "remove_file pf fn p Special = Some Special"
| "remove_entries pf fn p [] = []"
| "remove_entries pf fn p ((nm, n) # entries) =
     (case remove_file pf fn (path_join pf p nm) n of
        None \<Rightarrow> entries
      | Some n' \<Rightarrow> (nm, n') # remove_entries pf fn p entries)"

definition find_in :: "platform \<Rightarrow> string \<Rightarrow> string \<Rightarrow> node option \<Rightarrow> node option" where
  "find_in pf fn p t = (case t of None \<Rightarrow> None | Some n \<Rightarrow> find_file pf fn p n)"

definition remove_in :: "platform \<Rightarrow> string \<Rightarrow> string \<Rightarrow> node option \<Rightarrow> node option" where
  "remove_in pf fn p t = (case t of None \<Rightarrow> None | Some n \<Rightarrow> remove_file pf fn p n)"

text \<open>The file that a path names, looked for in the nested module first.\<close>

definition lookup_file :: "world \<Rightarrow> string \<Rightarrow> node option" where
  "lookup_file w fn =
     (case find_in (platform w) fn (nested_location w) (nested_module w) of
        Some f \<Rightarrow> Some f
      | None \<Rightarrow> find_in (platform w) fn (sibling_location w) (sibling_module w))"

text \<open>\<open>fs.accessSync(fn, fs.F_OK | fs.R_OK | fs.W_OK)\<close> (line 245) returns without throwing.\<close>

definition accessSync_rw :: "world \<Rightarrow> string \<Rightarrow> bool" where
  "accessSync_rw w fn =
     (case lookup_file w fn of Some (File r wr d) \<Rightarrow> r \<and> wr | _ \<Rightarrow> False)"

text \<open>\<open>fs.unlinkSync(fn)\<close> (line 255).\<close>

definition unlinkSync :: "string \<Rightarrow> proc \<Rightarrow> error option \<times> proc" where
  "unlinkSync fn s =
     (let w = fs s in
      case lookup_file w fn of
        Some (File r wr d) \<Rightarrow>
          if d then
            (None,
             s\<lparr>fs :=
                 (if find_in (platform w) fn (nested_location w) (nested_module w) \<noteq> None
                  then w\<lparr>nested_module :=
                           remove_in (platform w) fn (nested_location w) (nested_module w),
                         fs_log := fs_log w @ [Unlinked fn]\<rparr>
                  else w\<lparr>sibling_module :=
                           remove_in (platform w) fn (sibling_location w) (sibling_module w),
                         fs_log := fs_log w @ [Unlinked fn]\<rparr>)\<rparr>)
          else (Some (FsError Unlink fn), s)
      | _ \<Rightarrow> (Some (FsError Unlink fn), s))"

text \<open>
  \<open>locateDependencyModule\<close> (lines 195 to 221): the first of the two locations on which
  \<open>fs.accessSync(p, F_OK)\<close> does not throw, with the node found there.
\<close>

definition locateDependencyModule :: "world \<Rightarrow> error + string \<times> node" where
  "locateDependencyModule w =
     (case nested_module w of
        Some n \<Rightarrow>
          if n \<noteq> Dangling then Inr (nested_location w, n)
          else (case sibling_module w of
                  Some m \<Rightarrow>
                    if m \<noteq> Dangling then Inr (sibling_location w, m)
                    else Inl Error_ModuleNotFound
                | None \<Rightarrow> Inl Error_ModuleNotFound)
      | None \<Rightarrow>
          (case sibling_module w of
             Some m \<Rightarrow>
               if m \<noteq> Dangling then Inr (sibling_location w, m)
               else Inl Error_ModuleNotFound
           | None \<Rightarrow> Inl Error_ModuleNotFound))"

section \<open>The tailoring engine\<close>

subsection \<open>Command line\<close>

text \<open>
  \<open>printHelpAndExit\<close> (lines 280 to 306) reads the names and the documentation of
  \<open>cCmdLineOptionsDef\<close>, whose handlers call \<open>printHelpAndExit\<close>; the model breaks the
  circle by listing names and documentation first. A function that may call
  \<open>process.exit\<close> returns \<open>Some code\<close> when it does, and the state in both cases.
\<close>

definition cCmdLineHelp :: "(string \<times> string) list" where
  "cCmdLineHelp =
     [(''--help'', ''Print this help''),
      (''--dryRun'', ''Print files which to be deleted and exit.''),
      (''--state'', ''Print current tailoring state of npm module and exit.''),
      (''--AwsLambdaV4'', ''Tailor environment for AWS Lambda with Node.js V4.x''),
      (''--AwsLambdaV6'', ''Tailor environment for AWS Lambda with Node.js V6.x'')]"

text \<open>
  The argument is optional: \<open>None\<close> is a call without it. \<open>!exitCode\<close> holds for
  \<open>undefined\<close> and for \<open>0\<close>.
\<close>

definition printHelpAndExit :: "nat option \<Rightarrow> proc \<Rightarrow> nat option \<times> proc" where
  "printHelpAndExit exitCode s =
     (let code = (case exitCode of None \<Rightarrow> 1 | Some c \<Rightarrow> if c = 0 then 1 else c);
          s1 = log Msg_Usage (log Msg_Blank s);
          s2 = fold (\<lambda>d. log (Msg_Option (fst d) (30 - length (fst d)) (snd d))) cCmdLineHelp s1
      in (Some code, log Msg_Blank s2))"

text \<open>
  \<open>printTailoringStatusAndExit\<close> (lines 264 to 273); a template string prints the value
  \<open>undefined\<close> as the word.
\<close>

definition printTailoringStatusAndExit :: "proc \<Rightarrow> nat option \<times> proc" where
  "printTailoringStatusAndExit s =
     (Some 0,
      log (if persistedTailoringState s = Some cStateNotTailored then Msg_StateNotTailored
           else Msg_StateTailored
                  (case persistedTailoringState s of Some st \<Rightarrow> st | None \<Rightarrow> ''undefined''))
          s)"

record CmdLineDef =
  name :: string
  verbose :: string
  handler :: "proc \<Rightarrow> nat option \<times> proc"

definition cCmdLineOptionsDef :: "CmdLineDef list" where
  "cCmdLineOptionsDef =
     [\<lparr> name = ''--help'', verbose = ''Print this help'',
        handler = printHelpAndExit (Some 0) \<rparr>,
      \<lparr> name = ''--dryRun'', verbose = ''Print files which to be deleted and exit.'',
        handler = (\<lambda>s. (None, s\<lparr>options := (options s)\<lparr>dryRun := True\<rparr>\<rparr>)) \<rparr>,
      \<lparr> name = ''--state'',
        verbose = ''Print current tailoring state of npm module and exit.'',
        handler = printTailoringStatusAndExit \<rparr>,
      \<lparr> name = ''--AwsLambdaV4'',
        verbose = ''Tailor environment for AWS Lambda with Node.js V4.x'',
        handler = (\<lambda>s. (None, s\<lparr>options := (options s)\<lparr>environment := Some cLambdaV4EnvDef\<rparr>\<rparr>)) \<rparr>,
      \<lparr> name = ''--AwsLambdaV6'',
        verbose = ''Tailor environment for AWS Lambda with Node.js V6.x'',
        handler = (\<lambda>s. (None, s\<lparr>options := (options s)\<lparr>environment := Some cLambdaV6EnvDef\<rparr>\<rparr>)) \<rparr>]"

definition lookupOption :: "string \<Rightarrow> CmdLineDef option" where
  "lookupOption option = find (\<lambda>def. name def = option) cCmdLineOptionsDef"

text \<open>
  \<open>parseOptions\<close> (lines 319 to 337). \<open>argv\<close> is \<open>process.argv\<close> without its first two
  elements, so \<open>process.argv.length < 3\<close> is \<open>length argv < 1\<close>; \<open>processArgs\<close> is the
  \<open>for\<close> loop.
\<close>

fun processArgs :: "string list \<Rightarrow> proc \<Rightarrow> nat option \<times> proc" where
  "processArgs [] s = (None, s)"
| "processArgs (option # rest) s =
     (case lookupOption option of
        None \<Rightarrow> printHelpAndExit None (log (Msg_UnknownOption option) s)
      | Some def \<Rightarrow>
          (case handler def s of
             (Some code, s') \<Rightarrow> (Some code, s')
           | (None, s') \<Rightarrow> processArgs rest s'))"

definition parseOptions :: "string list \<Rightarrow> proc \<Rightarrow> nat option \<times> proc" where
  "parseOptions argv s =
     processArgs (if length argv < 1 then argv @ [''--help''] else argv) s"

subsection \<open>The tailoring run\<close>

text \<open>The \<open>forEach\<close> of the dry run (lines 243 to 247).\<close>

fun listFiles :: "string list \<Rightarrow> proc \<Rightarrow> error option \<times> proc" where
  "listFiles [] s = (None, s)"
| "listFiles (fn # rest) s =
     (if accessSync_rw (fs s) fn then listFiles rest (log (Msg_DryRunFile fn) s)
      else (Some (FsError Access fn), s))"

text \<open>The \<open>forEach\<close> that deletes (lines 253 to 256).\<close>

fun deleteFiles :: "string list \<Rightarrow> proc \<Rightarrow> error option \<times> proc" where
  "deleteFiles [] s = (None, s)"
| "deleteFiles (fn # rest) s =
     (case unlinkSync fn (log (Msg_Deleting fn) s) of
        (Some e, s') \<Rightarrow> (Some e, s')
      | (None, s') \<Rightarrow> deleteFiles rest s')"

text \<open>\<open>tailorModule\<close> (lines 226 to 259).\<close>

definition tailorModule :: "proc \<Rightarrow> error option \<times> proc" where
  "tailorModule s =
     (case environment (options s) of
        None \<Rightarrow> (Some Error_NoEnvironment, s)
      | Some env \<Rightarrow>
          (case locateDependencyModule (fs s) of
             Inl e \<Rightarrow> (Some e, s)
           | Inr (dependencyLocation, root) \<Rightarrow>
               (case scanFolder (platform (fs s)) dependencyLocation root of
                  Inl e \<Rightarrow> (Some e, s)
                | Inr allFiles \<Rightarrow>
                    (let filesToDelete = filter (deleteFilePredicate env) allFiles;
                         s1 = log (Msg_Tailoring (EnvDef.name env)) s
                     in if dryRun (options s) then
                          (case listFiles filesToDelete (log Msg_DryRunHeader s1) of
                             (Some e, s2) \<Rightarrow> (Some e, s2)
                           | (None, s2) \<Rightarrow> (None, log Msg_Blank s2))
                        else
                          (case writeStateFile cStateUndefined s1 of
                             (Some e, s2) \<Rightarrow> (Some e, s2)
                           | (None, s2) \<Rightarrow>
                               (case deleteFiles filesToDelete s2 of
                                  (Some e, s3) \<Rightarrow> (Some e, s3)
                                | (None, s3) \<Rightarrow> writeStateFile (EnvDef.name env) s3))))))"

text \<open>\<open>printResult\<close> (lines 343 to 353).\<close>

definition printResult :: "error option \<Rightarrow> proc \<Rightarrow> proc" where
  "printResult e s =
     log (Msg_Result (dryRun (options s)) (map_option EnvDef.name (environment (options s)))
            (e = None))
         (case e of Some err \<Rightarrow> log (Msg_Error err) s | None \<Rightarrow> s)"

subsection \<open>The program\<close>

text \<open>
  The dispatch on the persisted state (lines 367 to 381), the part of the \<open>try\<close> block
  after \<open>parseOptions\<close>. Lines 372 and 376 read \<open>options.environment.name\<close>; without a
  selected environment that throws.
\<close>

definition dispatch :: "string \<Rightarrow> proc \<Rightarrow> error option \<times> proc" where
  "dispatch state s =
     (if state \<notin> set cStates then (None, log (Msg_UnknownState state) s)
      else if state = cStateUndefined then (None, log Msg_UndefinedState s)
      else if state \<noteq> cStateNotTailored then
        (case environment (options s) of
           None \<Rightarrow> (Some TypeError_name_of_undefined, s)
         | Some env \<Rightarrow>
             if state = EnvDef.name env then (None, log (Msg_AlreadyTailored state) s)
             else (None, log (Msg_PleaseReinstall (EnvDef.name env)) (log (Msg_Conflict state) s)))
      else
        (case tailorModule s of
           (Some e, s') \<Rightarrow> (Some e, s')
         | (None, s') \<Rightarrow> (None, printResult None s')))"

text \<open>A new process: nothing selected, nothing read, nothing printed (lines 128 to 131, 359).\<close>

definition start :: "world \<Rightarrow> proc" where
  "start w =
     \<lparr> fs = w, options = \<lparr> environment = None, dryRun = False \<rparr>,
       persistedTailoringState = None, console = [] \<rparr>"

text \<open>
  The top level (lines 361 to 385): the exit code of the process and its last state.
  A process that reaches the end of the script exits with code 0.
\<close>

definition main :: "string list \<Rightarrow> world \<Rightarrow> nat \<times> proc" where
  "main argv w =
     (case tryReadStateFile w of
        Inl e \<Rightarrow> (0, printResult (Some e) (start w))
      | Inr state \<Rightarrow>
          (case parseOptions argv ((start w)\<lparr>persistedTailoringState := Some state\<rparr>) of
             (Some code, s1) \<Rightarrow> (code, s1)
           | (None, s1) \<Rightarrow>
               (case dispatch state s1 of
                  (Some e, s2) \<Rightarrow> (0, printResult (Some e) s2)
                | (None, s2) \<Rightarrow> (0, s2))))"

section \<open>Terms of the statements\<close>

text \<open>The environments that the command line can select.\<close>

definition known_environment :: "proc \<Rightarrow> bool" where
  "known_environment s \<longleftrightarrow>
     environment (options s) \<in> {None, Some cLambdaV4EnvDef, Some cLambdaV6EnvDef}"

text \<open>
  A world for the examples: the module is installed beside the package, under \<open>/a\<close>,
  with three binaries in \<open>bin\<close> (the last can be neither written nor removed) and one
  in \<open>lib\<close>; the state file says that the module is not tailored.
\<close>

definition example_world :: world where
  "example_world =
     \<lparr> platform = Posix,
       cStateFileName = ''/m/lib/pkgtailor-state'',
       state_file = RegFile True True cStateNotTailored,
       nested_location = ''/m/node_modules/@dynatrace/oneagent-dependency/agent'',
       nested_module = None,
       sibling_location = ''/a'',
       sibling_module =
         Some (Dir [(''bin'', Dir [(''x_46.node'', File True True True),
                                   (''x_48.node'', File True True True),
                                   (''x_57.node'', File True False False)]),
                    (''lib'', Dir [(''y_46.node'', File True True True)])]),
       fs_log = [] \<rparr>"


section \<open>Properties of the matcher\<close>

lemma nullable_lang: "nullable r \<longleftrightarrow> [] \<in> lang r"
  by (induction r) (auto simp: conc_def intro: star.star_nil)

lemma conc_cons_iff:
  "c # s \<in> conc A B \<longleftrightarrow> ([] \<in> A \<and> c # s \<in> B) \<or> (\<exists>a b. s = a @ b \<and> c # a \<in> A \<and> b \<in> B)"
  unfolding conc_def
  by (auto simp: Cons_eq_append_conv)

lemma star_cons_only_if:
  "x \<in> star A \<Longrightarrow> x = c # s \<Longrightarrow> \<exists>a w. s = a @ w \<and> c # a \<in> A \<and> w \<in> star A"
proof (induction arbitrary: s rule: star.induct)
  case star_nil
  then show ?case by simp
next
  case (star_app a w)
  show ?case
  proof (cases a)
    case Nil
    with star_app show ?thesis by simp
  next
    case (Cons d a')
    with star_app.prems have "d = c" and "s = a' @ w" by simp_all
    with Cons star_app.hyps show ?thesis by blast
  qed
qed

lemma star_cons_iff:
  "c # s \<in> star A \<longleftrightarrow> (\<exists>a w. s = a @ w \<and> c # a \<in> A \<and> w \<in> star A)"
proof
  assume "c # s \<in> star A"
  then show "\<exists>a w. s = a @ w \<and> c # a \<in> A \<and> w \<in> star A"
    by (rule star_cons_only_if) simp
next
  assume "\<exists>a w. s = a @ w \<and> c # a \<in> A \<and> w \<in> star A"
  then obtain a w where "s = a @ w" "c # a \<in> A" "w \<in> star A" by blast
  then show "c # s \<in> star A"
    using star.star_app [of "c # a" A w] by simp
qed

lemma lang_deriv: "s \<in> lang (deriv c r) \<longleftrightarrow> c # s \<in> lang r"
proof (induction r arbitrary: s)
  case (Cat r1 r2)
  then show ?case
    by (auto simp: conc_cons_iff nullable_lang) (auto simp: conc_def)
next
  case (Star r)
  then show ?case
    by (auto simp: star_cons_iff conc_def)
qed auto

lemma matches_lang: "matches r s \<longleftrightarrow> s \<in> lang r"
  unfolding matches_def
  by (induction s arbitrary: r) (simp_all add: nullable_lang lang_deriv)

lemma test_end_iff: "test_end r s \<longleftrightarrow> (\<exists>p t. s = p @ t \<and> t \<in> lang r)"
  unfolding test_end_def list_ex_iff
  by (fastforce simp: matches_lang suffix_def)

lemma lang_Lit: "lang (Lit s) = {s}"
  by (induction s) (auto simp: conc_def)

lemma conc_single_cons: "s \<in> conc {[c]} B \<longleftrightarrow> (\<exists>t. s = c # t \<and> t \<in> B)"
  by (auto simp: conc_def)

lemma conc_single: "s \<in> conc {u} B \<longleftrightarrow> (\<exists>t. s = u @ t \<and> t \<in> B)"
  by (auto simp: conc_def)

lemma star_NotChr_only_if: "w \<in> star {[d] | d. d \<noteq> c} \<Longrightarrow> c \<notin> set w"
  by (induction rule: star.induct) auto

lemma star_NotChr_if: "c \<notin> set w \<Longrightarrow> w \<in> star {[d] | d. d \<noteq> c}"
proof (induction w)
  case Nil
  show ?case by (rule star.star_nil)
next
  case (Cons x w)
  then have "[x] \<in> {[d] | d. d \<noteq> c}" and "w \<in> star {[d] | d. d \<noteq> c}" by auto
  then have "[x] @ w \<in> star {[d] | d. d \<noteq> c}" by (rule star.star_app)
  then show ?case by simp
qed

lemma concI: "a \<in> A \<Longrightarrow> b \<in> B \<Longrightarrow> a @ b \<in> conc A B"
  unfolding conc_def by blast

lemma concE: "s \<in> conc A B \<Longrightarrow> (\<And>a b. s = a @ b \<Longrightarrow> a \<in> A \<Longrightarrow> b \<in> B \<Longrightarrow> R) \<Longrightarrow> R"
  unfolding conc_def by blast

lemma star_NotChr: "star {[d] | d. d \<noteq> c} = {w. c \<notin> set w}"
  using star_NotChr_only_if star_NotChr_if by blast

lemma lang_Plus_NotChr: "w \<in> lang (Plus (NotChr c)) \<longleftrightarrow> w \<noteq> [] \<and> c \<notin> set w"
proof
  assume "w \<in> lang (Plus (NotChr c))"
  then have "w \<in> conc {[d] | d. d \<noteq> c} {w. c \<notin> set w}"
    by (simp add: Plus_def star_NotChr)
  then show "w \<noteq> [] \<and> c \<notin> set w"
    by (rule concE) auto
next
  assume w: "w \<noteq> [] \<and> c \<notin> set w"
  then obtain x xs where eq: "w = [x] @ xs" by (cases w) auto
  with w have "[x] \<in> {[d] | d. d \<noteq> c}" and "xs \<in> {w. c \<notin> set w}" by auto
  then have "[x] @ xs \<in> conc {[d] | d. d \<noteq> c} {w. c \<notin> set w}" by (rule concI)
  with eq show "w \<in> lang (Plus (NotChr c))"
    by (simp add: Plus_def star_NotChr)
qed

lemma conc_right_single: "s \<in> conc A {u} \<longleftrightarrow> (\<exists>t. s = t @ u \<and> t \<in> A)"
  by (auto simp: conc_def)

lemma conc_two_chars:
  "v \<in> conc {[c] | c. P c} {[c] | c. Q c} \<longleftrightarrow> (\<exists>x y. v = [x, y] \<and> P x \<and> Q y)"
proof
  assume "v \<in> conc {[c] | c. P c} {[c] | c. Q c}"
  then show "\<exists>x y. v = [x, y] \<and> P x \<and> Q y"
    by (rule concE) auto
next
  assume "\<exists>x y. v = [x, y] \<and> P x \<and> Q y"
  then obtain x y where v: "v = [x] @ [y]" and "P x" and "Q y" by auto
  then have "[x] \<in> {[c] | c. P c}" and "[y] \<in> {[c] | c. Q c}" by auto
  then have "[x] @ [y] \<in> conc {[c] | c. P c} {[c] | c. Q c}" by (rule concI)
  with v show "v \<in> conc {[c] | c. P c} {[c] | c. Q c}" by simp
qed

lemma conc_Un_left: "conc (A \<union> B) C = conc A C \<union> conc B C"
  by (auto simp: conc_def)

lemma lang_slash_name:
  "u \<in> lang (Cat (Chr (CHR ''/'')) (Plus (NotChr (CHR ''/'')))) \<longleftrightarrow>
     (\<exists>nm. u = CHR ''/'' # nm \<and> nm \<noteq> [] \<and> CHR ''/'' \<notin> set nm)"
  unfolding lang.simps(7) lang.simps(3) conc_single_cons lang_Plus_NotChr by simp

lemma lang_c32BitPathPattern:
  "t \<in> lang c32BitPathPattern \<longleftrightarrow>
     (\<exists>nm. nm \<noteq> [] \<and> CHR ''/'' \<notin> set nm \<and> (t = ''/lib/'' @ nm \<or> t = ''/linux-x86-32/'' @ nm))"
proof -
  have "t \<in> lang c32BitPathPattern \<longleftrightarrow>
          (\<exists>u. (t = ''/lib'' @ u \<or> t = ''/linux-x86-32'' @ u) \<and>
               u \<in> lang (Cat (Chr (CHR ''/'')) (Plus (NotChr (CHR ''/'')))))"
    unfolding c32BitPathPattern_def lang.simps(7) [of "Alt _ _"] lang.simps(6) lang_Lit
      conc_Un_left Un_iff conc_single
    by blast
  also have "\<dots> \<longleftrightarrow>
     (\<exists>nm. nm \<noteq> [] \<and> CHR ''/'' \<notin> set nm \<and> (t = ''/lib'' @ CHR ''/'' # nm \<or> t = ''/linux-x86-32'' @ CHR ''/'' # nm))"
    unfolding lang_slash_name by blast
  finally show ?thesis by simp
qed

lemma lang_abi_tag:
  "v \<in> lang (Alt (Cat (Chr (CHR ''4'')) (NotChr k))
                   (Cat (NotChr (CHR ''4'')) (Range (CHR ''0'') (CHR ''9'')))) \<longleftrightarrow>
      (\<exists>x y. v = [x, y] \<and>
        ((x = CHR ''4'' \<and> y \<noteq> k) \<or> (x \<noteq> CHR ''4'' \<and> in_range (CHR ''0'') (CHR ''9'') y)))"
proof -
  have four: "{[CHR ''4'']} = {[c] | c. c = CHR ''4''}" by auto
  show ?thesis
    unfolding lang.simps Un_iff four conc_two_chars by blast
qed

lemma lang_abiPattern:
  "t \<in> lang (abiPattern k) \<longleftrightarrow>
     (\<exists>x y. t = CHR ''_'' # x # y # ''.node'' \<and>
        ((x = CHR ''4'' \<and> y \<noteq> k) \<or> (x \<noteq> CHR ''4'' \<and> in_range (CHR ''0'') (CHR ''9'') y)))"
proof -
  have "t \<in> lang (abiPattern k) \<longleftrightarrow>
      (\<exists>v. t = CHR ''_'' # v @ ''.node'' \<and>
         v \<in> lang (Alt (Cat (Chr (CHR ''4'')) (NotChr k))
                   (Cat (NotChr (CHR ''4'')) (Range (CHR ''0'') (CHR ''9'')))))"
    unfolding abiPattern_def lang.simps(7) [of "Chr _"]  lang.simps(7) [of "Alt _ _"] lang.simps(3)
      lang_Lit conc_single_cons conc_right_single
    by blast
  also have "\<dots> \<longleftrightarrow> (\<exists>x y. t = CHR ''_'' # [x, y] @ ''.node'' \<and>
        ((x = CHR ''4'' \<and> y \<noteq> k) \<or> (x \<noteq> CHR ''4'' \<and> in_range (CHR ''0'') (CHR ''9'') y)))"
    unfolding lang_abi_tag by blast
  finally show ?thesis by simp
qed

section \<open>The deletion predicates\<close>

lemma tagged_suffix_unique:
  "(pre @ CHR ''_'' # x # y # ''.node'' = p @ CHR ''_'' # x' # y' # ''.node'')
     = (pre = p \<and> x = x' \<and> y = y')"
  by (subst append_eq_append_conv) auto

lemma test_end_abiPattern:
  "test_end (abiPattern k) (pre @ CHR ''_'' # x # y # ''.node'') \<longleftrightarrow>
     (x = CHR ''4'' \<and> y \<noteq> k) \<or> (x \<noteq> CHR ''4'' \<and> in_range (CHR ''0'') (CHR ''9'') y)"
  (is "?L \<longleftrightarrow> ?R")
proof
  assume ?L
  then obtain p t where eq: "pre @ CHR ''_'' # x # y # ''.node'' = p @ t"
    and t: "t \<in> lang (abiPattern k)"
    unfolding test_end_iff by blast
  from t obtain x' y' where t': "t = CHR ''_'' # x' # y' # ''.node''"
    and c: "(x' = CHR ''4'' \<and> y' \<noteq> k) \<or> (x' \<noteq> CHR ''4'' \<and> in_range (CHR ''0'') (CHR ''9'') y')"
    unfolding lang_abiPattern by blast
  from eq t' have "x = x' \<and> y = y'"
    using tagged_suffix_unique [of pre x y p x' y'] by simp
  with c show ?R by simp
next
  assume ?R
  then have "CHR ''_'' # x # y # ''.node'' \<in> lang (abiPattern k)"
    unfolding lang_abiPattern by blast
  then show ?L
    unfolding test_end_iff by blast
qed

lemma test_end_c32BitPathPattern:
  "test_end c32BitPathPattern fn \<longleftrightarrow>
     (\<exists>pre nm. nm \<noteq> [] \<and> CHR ''/'' \<notin> set nm \<and>
        (fn = pre @ ''/lib/'' @ nm \<or> fn = pre @ ''/linux-x86-32/'' @ nm))"
  unfolding test_end_iff lang_c32BitPathPattern by blast

lemma is_digit_in_range: "is_digit y \<Longrightarrow> in_range (CHR ''0'') (CHR ''9'') y"
  unfolding is_digit_def in_range_def by auto

lemma deleteFilePredicate_V4:
  "deleteFilePredicate cLambdaV4EnvDef fn \<longleftrightarrow>
     test_end (abiPattern (CHR ''6'')) fn \<or> test_end c32BitPathPattern fn"
  by (simp add: cLambdaV4EnvDef_def)

lemma deleteFilePredicate_V6:
  "deleteFilePredicate cLambdaV6EnvDef fn \<longleftrightarrow>
     test_end (abiPattern (CHR ''8'')) fn \<or> test_end c32BitPathPattern fn"
  by (simp add: cLambdaV6EnvDef_def)

lemma no_slash_not_c32: "CHR ''/'' \<notin> set fn \<Longrightarrow> \<not> test_end c32BitPathPattern fn"
  unfolding test_end_c32BitPathPattern by auto

lemma is_digit_not_slash: "is_digit x \<Longrightarrow> x \<noteq> CHR ''/''"
  unfolding is_digit_def by auto

lemma tagged_predicate:
  assumes "is_digit x" and "is_digit y"
  shows "(test_end (abiPattern k) (pre @ CHR ''_'' # x # y # ''.node'') \<or>
          test_end c32BitPathPattern (pre @ CHR ''_'' # x # y # ''.node'')) =
         ((x, y) \<noteq> (CHR ''4'', k) \<or>
          test_end c32BitPathPattern (pre @ CHR ''_'' # x # y # ''.node''))"
proof -
  from assms(2) have "in_range (CHR ''0'') (CHR ''9'') y" by (rule is_digit_in_range)
  then show ?thesis
    unfolding test_end_abiPattern by auto
qed

lemma tagged_name_not_c32:
  assumes "is_digit x" and "is_digit y"
  shows "\<not> test_end c32BitPathPattern (''addon'' @ CHR ''_'' # x # y # ''.node'')"
proof (rule no_slash_not_c32)
  from assms have "x \<noteq> CHR ''/''" and "y \<noteq> CHR ''/''"
    by (simp_all add: is_digit_not_slash)
  then show "CHR ''/'' \<notin> set (''addon'' @ CHR ''_'' # x # y # ''.node'')"
    by simp
qed

lemma tagged_name:
  assumes "is_digit x" and "is_digit y"
  shows "(test_end (abiPattern k) (''addon'' @ CHR ''_'' # x # y # ''.node'') \<or>
          test_end c32BitPathPattern (''addon'' @ CHR ''_'' # x # y # ''.node'')) =
         ((x, y) \<noteq> (CHR ''4'', k))"
  using tagged_predicate [OF assms, of k "''addon''"] tagged_name_not_c32 [OF assms]
  by blast

text \<open>
  C3: the predicate of the environment for Node 4.x is false on \<open>addon_46.node\<close> and
  true on \<open>addon_44.node\<close>, \<open>addon_48.node\<close> and \<open>addon_99.node\<close>; the predicate of
  the environment for Node 6.x is false on \<open>addon_48.node\<close> and true on
  \<open>addon_44.node\<close>, \<open>addon_46.node\<close> and \<open>addon_99.node\<close>. More generally, on a path
  that ends in \<open>_xy.node\<close> with two digits \<open>x\<close> and \<open>y\<close>, each predicate is true
  exactly when the tag is not the one it keeps (46 and 48) or the path lies in a \<open>lib\<close>
  or \<open>linux-x86-32\<close> folder.
\<close>

theorem C3_abi_tag_predicates:
  "\<not> deleteFilePredicate cLambdaV4EnvDef ''addon_46.node'' \<and>
   deleteFilePredicate cLambdaV4EnvDef ''addon_44.node'' \<and>
   deleteFilePredicate cLambdaV4EnvDef ''addon_48.node'' \<and>
   deleteFilePredicate cLambdaV4EnvDef ''addon_99.node'' \<and>
   \<not> deleteFilePredicate cLambdaV6EnvDef ''addon_48.node'' \<and>
   deleteFilePredicate cLambdaV6EnvDef ''addon_44.node'' \<and>
   deleteFilePredicate cLambdaV6EnvDef ''addon_46.node'' \<and>
   deleteFilePredicate cLambdaV6EnvDef ''addon_99.node'' \<and>
   (\<forall>pre x y. is_digit x \<and> is_digit y \<longrightarrow>
      deleteFilePredicate cLambdaV4EnvDef (pre @ CHR ''_'' # x # y # ''.node'') =
        ((x, y) \<noteq> (CHR ''4'', CHR ''6'') \<or>
         test_end c32BitPathPattern (pre @ CHR ''_'' # x # y # ''.node''))) \<and>
   (\<forall>pre x y. is_digit x \<and> is_digit y \<longrightarrow>
      deleteFilePredicate cLambdaV6EnvDef (pre @ CHR ''_'' # x # y # ''.node'') =
        ((x, y) \<noteq> (CHR ''4'', CHR ''8'') \<or>
         test_end c32BitPathPattern (pre @ CHR ''_'' # x # y # ''.node'')))"
proof -
  have d: "is_digit (CHR ''4'')" "is_digit (CHR ''6'')" "is_digit (CHR ''8'')" "is_digit (CHR ''9'')"
    by (simp_all add: is_digit_def)
  have c1: "\<not> deleteFilePredicate cLambdaV4EnvDef ''addon_46.node''"
    unfolding deleteFilePredicate_V4 using tagged_name [OF d(1) d(2), of "CHR ''6''"] by simp
  have c2: "deleteFilePredicate cLambdaV4EnvDef ''addon_44.node''"
    unfolding deleteFilePredicate_V4 using tagged_name [OF d(1) d(1), of "CHR ''6''"] by simp
  have c3: "deleteFilePredicate cLambdaV4EnvDef ''addon_48.node''"
    unfolding deleteFilePredicate_V4 using tagged_name [OF d(1) d(3), of "CHR ''6''"] by simp
  have c4: "deleteFilePredicate cLambdaV4EnvDef ''addon_99.node''"
    unfolding deleteFilePredicate_V4 using tagged_name [OF d(4) d(4), of "CHR ''6''"] by simp
  have c5: "\<not> deleteFilePredicate cLambdaV6EnvDef ''addon_48.node''"
    unfolding deleteFilePredicate_V6 using tagged_name [OF d(1) d(3), of "CHR ''8''"] by simp
  have c6: "deleteFilePredicate cLambdaV6EnvDef ''addon_44.node''"
    unfolding deleteFilePredicate_V6 using tagged_name [OF d(1) d(1), of "CHR ''8''"] by simp
  have c7: "deleteFilePredicate cLambdaV6EnvDef ''addon_46.node''"
    unfolding deleteFilePredicate_V6 using tagged_name [OF d(1) d(2), of "CHR ''8''"] by simp
  have c8: "deleteFilePredicate cLambdaV6EnvDef ''addon_99.node''"
    unfolding deleteFilePredicate_V6 using tagged_name [OF d(4) d(4), of "CHR ''8''"] by simp
  have g4: "\<forall>pre x y. is_digit x \<and> is_digit y \<longrightarrow>
      deleteFilePredicate cLambdaV4EnvDef (pre @ CHR ''_'' # x # y # ''.node'') =
        ((x, y) \<noteq> (CHR ''4'', CHR ''6'') \<or>
         test_end c32BitPathPattern (pre @ CHR ''_'' # x # y # ''.node''))"
    unfolding deleteFilePredicate_V4 using tagged_predicate by blast
  have g6: "\<forall>pre x y. is_digit x \<and> is_digit y \<longrightarrow>
      deleteFilePredicate cLambdaV6EnvDef (pre @ CHR ''_'' # x # y # ''.node'') =
        ((x, y) \<noteq> (CHR ''4'', CHR ''8'') \<or>
         test_end c32BitPathPattern (pre @ CHR ''_'' # x # y # ''.node''))"
    unfolding deleteFilePredicate_V6 using tagged_predicate by blast
  show ?thesis
    by (intro conjI c1 c2 c3 c4 c5 c6 c7 c8 g4 g6)
qed

theorem C3_abi_tag_predicates_witness:
  "is_digit (CHR ''5'') \<and> is_digit (CHR ''7'') \<and>
   deleteFilePredicate cLambdaV4EnvDef ''/opt/agent/bin/addon_57.node'' \<and>
   deleteFilePredicate cLambdaV6EnvDef ''/opt/agent/bin/addon_57.node''"
proof -
  have d: "is_digit (CHR ''5'') \<and> is_digit (CHR ''7'')" by (simp add: is_digit_def)
  have g4: "\<forall>pre x y. is_digit x \<and> is_digit y \<longrightarrow>
      deleteFilePredicate cLambdaV4EnvDef (pre @ CHR ''_'' # x # y # ''.node'') =
        ((x, y) \<noteq> (CHR ''4'', CHR ''6'') \<or>
         test_end c32BitPathPattern (pre @ CHR ''_'' # x # y # ''.node''))"
    using C3_abi_tag_predicates by (elim conjE)
  have g6: "\<forall>pre x y. is_digit x \<and> is_digit y \<longrightarrow>
      deleteFilePredicate cLambdaV6EnvDef (pre @ CHR ''_'' # x # y # ''.node'') =
        ((x, y) \<noteq> (CHR ''4'', CHR ''8'') \<or>
         test_end c32BitPathPattern (pre @ CHR ''_'' # x # y # ''.node''))"
    using C3_abi_tag_predicates by (elim conjE)
  from g4 [rule_format, OF d, of "''/opt/agent/bin/addon''"]
  have a: "deleteFilePredicate cLambdaV4EnvDef ''/opt/agent/bin/addon_57.node''" by simp
  from g6 [rule_format, OF d, of "''/opt/agent/bin/addon''"]
  have b: "deleteFilePredicate cLambdaV6EnvDef ''/opt/agent/bin/addon_57.node''" by simp
  from d a b show ?thesis by blast
qed

text \<open>
  C4: on every path that ends in \<open>/lib/\<close> or \<open>/linux-x86-32/\<close> followed by a file name
  (not empty, without a slash), the predicates of both environments are true, whatever
  the file name is.
\<close>

theorem C4_32bit_paths_always_deleted:
  assumes "nm \<noteq> []" and "CHR ''/'' \<notin> set nm" and "d = ''lib'' \<or> d = ''linux-x86-32''"
  shows "deleteFilePredicate cLambdaV4EnvDef (pre @ ''/'' @ d @ ''/'' @ nm) \<and>
         deleteFilePredicate cLambdaV6EnvDef (pre @ ''/'' @ d @ ''/'' @ nm)"
proof -
  from assms(3) have "pre @ ''/'' @ d @ ''/'' @ nm = pre @ ''/lib/'' @ nm \<or>
      pre @ ''/'' @ d @ ''/'' @ nm = pre @ ''/linux-x86-32/'' @ nm"
    by auto
  with assms(1,2) have "test_end c32BitPathPattern (pre @ ''/'' @ d @ ''/'' @ nm)"
    unfolding test_end_c32BitPathPattern by blast
  then show ?thesis
    unfolding deleteFilePredicate_V4 deleteFilePredicate_V6 by simp
qed

theorem C4_32bit_paths_always_deleted_witness:
  "deleteFilePredicate cLambdaV4EnvDef ''/opt/agent/lib/addon_46.node'' \<and>
   deleteFilePredicate cLambdaV6EnvDef ''/opt/agent/lib/addon_46.node''"
  using C4_32bit_paths_always_deleted [of "''addon_46.node''" "''lib''" "''/opt/agent''"]
  by simp

section \<open>Reading the state file\<close>

lemma tryReadStateFile_Inr:
  "tryReadStateFile w = Inr st \<longleftrightarrow> state_file w = RegFile True True st"
  unfolding tryReadStateFile_def
  by (cases "state_file w") (auto split: option.splits)

lemma tryReadStateFile_Inl:
  "tryReadStateFile w = Inl e \<longleftrightarrow>
     e = Error_StateFileNotAccessible \<and> (\<forall>st. state_file w \<noteq> RegFile True True st)"
  unfolding tryReadStateFile_def
  by (cases "state_file w") (auto split: option.splits)



section \<open>The command line\<close>

lemma lookupOption_eq:
  "lookupOption option =
     (if option = ''--help'' then
        Some \<lparr> name = ''--help'', verbose = ''Print this help'',
               handler = printHelpAndExit (Some 0) \<rparr>
      else if option = ''--dryRun'' then
        Some \<lparr> name = ''--dryRun'', verbose = ''Print files which to be deleted and exit.'',
               handler = (\<lambda>s. (None, s\<lparr>options := (options s)\<lparr>dryRun := True\<rparr>\<rparr>)) \<rparr>
      else if option = ''--state'' then
        Some \<lparr> name = ''--state'',
               verbose = ''Print current tailoring state of npm module and exit.'',
               handler = printTailoringStatusAndExit \<rparr>
      else if option = ''--AwsLambdaV4'' then
        Some \<lparr> name = ''--AwsLambdaV4'',
               verbose = ''Tailor environment for AWS Lambda with Node.js V4.x'',
               handler = (\<lambda>s. (None, s\<lparr>options := (options s)\<lparr>environment := Some cLambdaV4EnvDef\<rparr>\<rparr>)) \<rparr>
      else if option = ''--AwsLambdaV6'' then
        Some \<lparr> name = ''--AwsLambdaV6'',
               verbose = ''Tailor environment for AWS Lambda with Node.js V6.x'',
               handler = (\<lambda>s. (None, s\<lparr>options := (options s)\<lparr>environment := Some cLambdaV6EnvDef\<rparr>\<rparr>)) \<rparr>
      else None)"
  unfolding lookupOption_def cCmdLineOptionsDef_def by simp

lemma processArgs_Cons:
  "processArgs (option # rest) s =
     (if option = ''--help'' then printHelpAndExit (Some 0) s
      else if option = ''--dryRun'' then
        processArgs rest (s\<lparr>options := (options s)\<lparr>dryRun := True\<rparr>\<rparr>)
      else if option = ''--state'' then printTailoringStatusAndExit s
      else if option = ''--AwsLambdaV4'' then
        processArgs rest (s\<lparr>options := (options s)\<lparr>environment := Some cLambdaV4EnvDef\<rparr>\<rparr>)
      else if option = ''--AwsLambdaV6'' then
        processArgs rest (s\<lparr>options := (options s)\<lparr>environment := Some cLambdaV6EnvDef\<rparr>\<rparr>)
      else printHelpAndExit None (log (Msg_UnknownOption option) s))"
  unfolding processArgs.simps lookupOption_eq
  by (simp add: printHelpAndExit_def printTailoringStatusAndExit_def Let_def)

lemma log_fields:
  "fs (log m s) = fs s" "options (log m s) = options s"
  "persistedTailoringState (log m s) = persistedTailoringState s"
  "console (log m s) = console s @ [m]"
  by (simp_all add: log_def)

lemma fold_log_fs: "fs (fold (\<lambda>d. log (f d)) ds s) = fs s"
  by (induction ds arbitrary: s) (simp_all add: log_fields)

lemma printHelpAndExit_fs: "fs (snd (printHelpAndExit c s)) = fs s"
  unfolding printHelpAndExit_def Let_def by (simp add: fold_log_fs log_fields)

lemma printHelpAndExit_code:
  "fst (printHelpAndExit c s) = Some (case c of None \<Rightarrow> 1 | Some k \<Rightarrow> if k = 0 then 1 else k)"
  unfolding printHelpAndExit_def Let_def by simp

lemma printTailoringStatusAndExit_fs: "fs (snd (printTailoringStatusAndExit s)) = fs s"
  unfolding printTailoringStatusAndExit_def by (simp add: log_def)

lemma processArgs_fs: "fs (snd (processArgs argv s)) = fs s"
proof (induction argv arbitrary: s)
  case Nil
  show ?case by simp
next
  case (Cons a argv)
  show ?case
    unfolding processArgs_Cons
    by (simp add: Cons.IH printHelpAndExit_fs printTailoringStatusAndExit_fs log_def)
qed

lemma processArgs_None:
  "processArgs argv s = (None, s') \<Longrightarrow> \<exists>opts. s' = s\<lparr>options := opts\<rparr>"
proof (induction argv arbitrary: s)
  case Nil
  then have "s' = s\<lparr>options := options s\<rparr>" by simp
  then show ?case by blast
next
  case (Cons a argv)
  have exits: "\<And>c t. printHelpAndExit c t \<noteq> (None, s')" "\<And>t. printTailoringStatusAndExit t \<noteq> (None, s')"
    by (simp_all add: printHelpAndExit_def printTailoringStatusAndExit_def Let_def)
  from Cons.prems consider
      (dry) "processArgs argv (s\<lparr>options := (options s)\<lparr>dryRun := True\<rparr>\<rparr>) = (None, s')"
    | (v4) "processArgs argv (s\<lparr>options := (options s)\<lparr>environment := Some cLambdaV4EnvDef\<rparr>\<rparr>) = (None, s')"
    | (v6) "processArgs argv (s\<lparr>options := (options s)\<lparr>environment := Some cLambdaV6EnvDef\<rparr>\<rparr>) = (None, s')"
    unfolding processArgs_Cons using exits by (auto split: if_splits)
  then show ?case
  proof cases
    case dry
    from Cons.IH [OF dry] show ?thesis by auto
  next
    case v4
    from Cons.IH [OF v4] show ?thesis by auto
  next
    case v6
    from Cons.IH [OF v6] show ?thesis by auto
  qed
qed

lemma fold_log_options: "options (fold (\<lambda>d. log (f d)) ds s) = options s"
  by (induction ds arbitrary: s) (simp_all add: log_fields)

lemma printHelpAndExit_options: "options (snd (printHelpAndExit c s)) = options s"
  unfolding printHelpAndExit_def Let_def by (simp add: fold_log_options log_fields)

lemma printTailoringStatusAndExit_options:
  "options (snd (printTailoringStatusAndExit s)) = options s"
  unfolding printTailoringStatusAndExit_def by (simp add: log_fields)

lemma processArgs_known_environment:
  "known_environment s \<Longrightarrow> known_environment (snd (processArgs argv s))"
proof (induction argv arbitrary: s)
  case Nil
  then show ?case by simp
next
  case (Cons a argv)
  have v4: "known_environment (s\<lparr>options := (options s)\<lparr>environment := Some cLambdaV4EnvDef\<rparr>\<rparr>)"
    and v6: "known_environment (s\<lparr>options := (options s)\<lparr>environment := Some cLambdaV6EnvDef\<rparr>\<rparr>)"
    by (simp_all add: known_environment_def)
  from Cons.prems
  have dry: "known_environment (s\<lparr>options := (options s)\<lparr>dryRun := True\<rparr>\<rparr>)"
    and hlp: "\<And>c. known_environment (snd (printHelpAndExit c s))"
    and unknown: "\<And>c m. known_environment (snd (printHelpAndExit c (log m s)))"
    and status: "known_environment (snd (printTailoringStatusAndExit s))"
    by (simp_all add: known_environment_def printHelpAndExit_options
        printTailoringStatusAndExit_options log_fields)
  show ?case
    unfolding processArgs_Cons
    using Cons.IH [OF v4] Cons.IH [OF v6] Cons.IH [OF dry] hlp unknown status
    by simp
qed

lemma processArgs_dryRun:
  "processArgs argv s = (None, s') \<Longrightarrow> dryRun (options s) \<or> ''--dryRun'' \<in> set argv \<Longrightarrow>
     dryRun (options s')"
proof (induction argv arbitrary: s)
  case Nil
  then show ?case by auto
next
  case (Cons a argv)
  have exits: "\<And>c t. printHelpAndExit c t \<noteq> (None, s')" "\<And>t. printTailoringStatusAndExit t \<noteq> (None, s')"
    by (simp_all add: printHelpAndExit_def printTailoringStatusAndExit_def Let_def)
  from Cons.prems(1) consider
      (dry) "a = ''--dryRun''"
        "processArgs argv (s\<lparr>options := (options s)\<lparr>dryRun := True\<rparr>\<rparr>) = (None, s')"
    | (v4) "a \<noteq> ''--dryRun''"
        "processArgs argv (s\<lparr>options := (options s)\<lparr>environment := Some cLambdaV4EnvDef\<rparr>\<rparr>) = (None, s')"
    | (v6) "a \<noteq> ''--dryRun''"
        "processArgs argv (s\<lparr>options := (options s)\<lparr>environment := Some cLambdaV6EnvDef\<rparr>\<rparr>) = (None, s')"
    unfolding processArgs_Cons using exits by (auto split: if_splits)
  then show ?case
  proof cases
    case dry
    from Cons.IH [OF dry(2)] show ?thesis by simp
  next
    case v4
    from Cons.IH [OF v4(2)] Cons.prems(2) v4(1) show ?thesis by simp
  next
    case v6
    from Cons.IH [OF v6(2)] Cons.prems(2) v6(1) show ?thesis by simp
  qed
qed

lemma parseOptions_fs: "fs (snd (parseOptions argv s)) = fs s"
  unfolding parseOptions_def by (rule processArgs_fs)

lemma parseOptions_None:
  "parseOptions argv s = (None, s') \<Longrightarrow> \<exists>opts. s' = s\<lparr>options := opts\<rparr>"
  unfolding parseOptions_def by (rule processArgs_None)

lemma parseOptions_known_environment:
  "known_environment s \<Longrightarrow> known_environment (snd (parseOptions argv s))"
  unfolding parseOptions_def by (rule processArgs_known_environment)

lemma parseOptions_dryRun:
  "parseOptions argv s = (None, s') \<Longrightarrow> ''--dryRun'' \<in> set argv \<Longrightarrow> dryRun (options s')"
  unfolding parseOptions_def
  using processArgs_dryRun [of "if length argv < 1 then argv @ [''--help''] else argv" s s']
  by (auto split: if_splits)

lemma parseOptions_examples:
  "parseOptions [''--AwsLambdaV4''] s =
     (None, s\<lparr>options := (options s)\<lparr>environment := Some cLambdaV4EnvDef\<rparr>\<rparr>)"
  "parseOptions [''--AwsLambdaV6''] s =
     (None, s\<lparr>options := (options s)\<lparr>environment := Some cLambdaV6EnvDef\<rparr>\<rparr>)"
  "parseOptions [''--dryRun'', ''--AwsLambdaV4''] s =
     (None, s\<lparr>options := (options s)\<lparr>dryRun := True, environment := Some cLambdaV4EnvDef\<rparr>\<rparr>)"
  unfolding parseOptions_def by (simp_all add: processArgs_Cons del: processArgs.simps(2))

section \<open>The first step of a run\<close>

lemma start_fields:
  "fs (start w) = w" "options (start w) = \<lparr> environment = None, dryRun = False \<rparr>"
  "persistedTailoringState (start w) = None" "console (start w) = []"
  by (simp_all add: start_def)

lemma known_environment_start:
  "known_environment ((start w)\<lparr>persistedTailoringState := x\<rparr>)"
  by (simp add: known_environment_def start_def)

lemma main_read_fails:
  assumes "\<forall>c. state_file w \<noteq> RegFile True True c"
  shows "main argv w =
     (0, (start w)\<lparr>console := [Msg_Error Error_StateFileNotAccessible, Msg_Result False None False]\<rparr>)"
proof -
  from assms have "tryReadStateFile w = Inl Error_StateFileNotAccessible"
    by (simp add: tryReadStateFile_Inl)
  then show ?thesis
    by (simp add: main_def printResult_def log_def start_def)
qed

text \<open>
  C10: the state file is read before the options are parsed. When the read fails, the
  run prints the access error and the result line and nothing else, whatever the
  command line is, and ends with code 0; so the usage text and the status lines are
  printed only when the read has succeeded.
\<close>

theorem C10_state_read_precedes_options:
  "(\<forall>e. tryReadStateFile w = Inl e \<longrightarrow>
      main argv w =
        (0, (start w)\<lparr>console :=
               [Msg_Error Error_StateFileNotAccessible, Msg_Result False None False]\<rparr>)) \<and>
   ((Msg_Usage \<in> set (console (snd (main argv w))) \<or>
     Msg_StateNotTailored \<in> set (console (snd (main argv w))) \<or>
     (\<exists>st. Msg_StateTailored st \<in> set (console (snd (main argv w))))) \<longrightarrow>
    (\<exists>st. tryReadStateFile w = Inr st))"
proof -
  have a: "\<forall>e. tryReadStateFile w = Inl e \<longrightarrow>
      main argv w =
        (0, (start w)\<lparr>console :=
               [Msg_Error Error_StateFileNotAccessible, Msg_Result False None False]\<rparr>)"
    using main_read_fails [of w argv] by (simp add: tryReadStateFile_Inl)
  have b: "(Msg_Usage \<in> set (console (snd (main argv w))) \<or>
     Msg_StateNotTailored \<in> set (console (snd (main argv w))) \<or>
     (\<exists>st. Msg_StateTailored st \<in> set (console (snd (main argv w))))) \<longrightarrow>
    (\<exists>st. tryReadStateFile w = Inr st)"
  proof (cases "tryReadStateFile w")
    case (Inl e)
    with a have "console (snd (main argv w)) =
        [Msg_Error Error_StateFileNotAccessible, Msg_Result False None False]"
      by simp
    then show ?thesis by simp
  next
    case (Inr st)
    then show ?thesis by blast
  qed
  from a b show ?thesis by blast
qed

theorem C10_state_read_precedes_options_witness:
  "tryReadStateFile (example_world\<lparr>state_file := Missing\<rparr>) = Inl Error_StateFileNotAccessible \<and>
   console (snd (main [''--help''] (example_world\<lparr>state_file := Missing\<rparr>))) =
     [Msg_Error Error_StateFileNotAccessible, Msg_Result False None False] \<and>
   console (snd (main [''--state''] (example_world\<lparr>state_file := RegFile True False cStateNotTailored\<rparr>))) =
     [Msg_Error Error_StateFileNotAccessible, Msg_Result False None False]"
proof -
  have r1: "tryReadStateFile (example_world\<lparr>state_file := Missing\<rparr>) = Inl Error_StateFileNotAccessible"
    by (simp add: tryReadStateFile_def)
  have r2: "tryReadStateFile (example_world\<lparr>state_file := RegFile True False cStateNotTailored\<rparr>)
      = Inl Error_StateFileNotAccessible"
    by (simp add: tryReadStateFile_def)
  from C10_state_read_precedes_options [of "example_world\<lparr>state_file := Missing\<rparr>" "[''--help'']"] r1
  have a: "console (snd (main [''--help''] (example_world\<lparr>state_file := Missing\<rparr>))) =
     [Msg_Error Error_StateFileNotAccessible, Msg_Result False None False]"
    by simp
  from C10_state_read_precedes_options
    [of "example_world\<lparr>state_file := RegFile True False cStateNotTailored\<rparr>" "[''--state'']"] r2
  have b: "console (snd (main [''--state''] (example_world\<lparr>state_file := RegFile True False cStateNotTailored\<rparr>))) =
     [Msg_Error Error_StateFileNotAccessible, Msg_Result False None False]"
    by simp
  from r1 a b show ?thesis by blast
qed

lemma main_parsed:
  assumes "tryReadStateFile w = Inr state"
    and "parseOptions argv ((start w)\<lparr>persistedTailoringState := Some state\<rparr>) = (None, p)"
  shows "main argv w =
     (case dispatch state p of
        (Some e, s2) \<Rightarrow> (0, printResult (Some e) s2)
      | (None, s2) \<Rightarrow> (0, s2))"
  using assms by (simp add: main_def)

lemma parsed_state:
  assumes "parseOptions argv ((start w)\<lparr>persistedTailoringState := Some state\<rparr>) = (None, p)"
  shows "fs p = w" and "console p = []" and "known_environment p"
proof -
  from parseOptions_None [OF assms] obtain opts where
    "p = (start w)\<lparr>persistedTailoringState := Some state, options := opts\<rparr>" by auto
  then show "fs p = w" and "console p = []" by (simp_all add: start_fields)
  have "known_environment (snd (parseOptions argv ((start w)\<lparr>persistedTailoringState := Some state\<rparr>)))"
    by (rule parseOptions_known_environment) (rule known_environment_start)
  with assms show "known_environment p" by simp
qed

section \<open>Exit codes\<close>

lemma exit_code_read_fails: "tryReadStateFile w = Inl e \<Longrightarrow> fst (main argv w) = 0"
  by (simp add: main_def)

lemma exit_code_engine:
  assumes "tryReadStateFile w = Inr state"
    and "parseOptions argv ((start w)\<lparr>persistedTailoringState := Some state\<rparr>) = (None, p)"
  shows "fst (main argv w) = 0"
  unfolding main_parsed [OF assms]
  by (simp split: prod.splits option.splits)

lemma exit_code_status:
  assumes "tryReadStateFile w = Inr state"
  shows "fst (main [''--state''] w) = 0"
proof -
  have "\<And>s. parseOptions [''--state''] s = printTailoringStatusAndExit s"
    unfolding parseOptions_def by (simp add: processArgs_Cons del: processArgs.simps(2))
  with assms show ?thesis
    by (simp add: main_def printTailoringStatusAndExit_def)
qed

lemma exit_code_unknown_option:
  assumes "tryReadStateFile w = Inr state" and "lookupOption option = None"
  shows "fst (main [option] w) = 1"
proof -
  define s where "s = log (Msg_UnknownOption option)
      ((start w)\<lparr>persistedTailoringState := Some state\<rparr>)"
  obtain t where t: "printHelpAndExit None s = (Some 1, t)"
    using printHelpAndExit_code [of None s] by (cases "printHelpAndExit None s") simp
  from assms(2) have "parseOptions [option] ((start w)\<lparr>persistedTailoringState := Some state\<rparr>)
      = printHelpAndExit None s"
    unfolding parseOptions_def s_def by simp
  with assms(1) t show ?thesis
    by (simp add: main_def)
qed

text \<open>
  C8: with a state file that can be read, the command line \<open>--help\<close> ends the process
  with exit code 1, and so does an empty command line: the handler passes 0 to
  \<open>printHelpAndExit\<close>, whose test \<open>!exitCode\<close> takes 0 for a missing argument.
\<close>

theorem C8_help_exits_with_1:
  "fst (main [''--help''] (w\<lparr>state_file := RegFile True True cStateNotTailored\<rparr>)) = 1 \<and>
   fst (main [] (w\<lparr>state_file := RegFile True True cStateNotTailored\<rparr>)) = 1"
proof -
  define v where "v = w\<lparr>state_file := RegFile True True cStateNotTailored\<rparr>"
  define s where "s = (start v)\<lparr>persistedTailoringState := Some cStateNotTailored\<rparr>"
  have r: "tryReadStateFile v = Inr cStateNotTailored"
    by (simp add: tryReadStateFile_def v_def)
  obtain t where t: "printHelpAndExit (Some 0) s = (Some 1, t)"
    using printHelpAndExit_code [of "Some 0" s] by (cases "printHelpAndExit (Some 0) s") simp
  have "parseOptions [''--help''] s = (Some 1, t)" and "parseOptions [] s = (Some 1, t)"
    unfolding parseOptions_def using t by (simp_all add: processArgs_Cons del: processArgs.simps(2))
  then have "fst (main [''--help''] v) = 1 \<and> fst (main [] v) = 1"
    unfolding main_def r s_def by simp
  then show ?thesis
    unfolding v_def .
qed

section \<open>The decision table\<close>

lemma state_tokens:
  "cStateNotTailored \<in> set cStates" "cStateUndefined \<in> set cStates"
  "cStateLambdaWithNode4 \<in> set cStates" "cStateLambdaWithNode6 \<in> set cStates"
  "cStateNotTailored \<noteq> cStateUndefined"
  "cStateLambdaWithNode4 \<noteq> cStateUndefined" "cStateLambdaWithNode4 \<noteq> cStateNotTailored"
  "cStateLambdaWithNode6 \<noteq> cStateUndefined" "cStateLambdaWithNode6 \<noteq> cStateNotTailored"
  by (simp_all add: cStates_def cStateNotTailored_def cStateUndefined_def
      cStateLambdaWithNode4_def cStateLambdaWithNode6_def)

lemma dispatch_unknown:
  "state \<notin> set cStates \<Longrightarrow> dispatch state s = (None, log (Msg_UnknownState state) s)"
  by (simp add: dispatch_def)

lemma dispatch_undefined:
  "dispatch cStateUndefined s = (None, log Msg_UndefinedState s)"
  by (simp add: dispatch_def state_tokens)

lemma known_environment_name:
  assumes "known_environment s" and "environment (options s) = Some env"
  shows "EnvDef.name env \<in> set cStates \<and> EnvDef.name env \<noteq> cStateUndefined \<and>
         EnvDef.name env \<noteq> cStateNotTailored"
proof -
  from assms have "env = cLambdaV4EnvDef \<or> env = cLambdaV6EnvDef"
    by (auto simp: known_environment_def)
  then show ?thesis
    by (auto simp: cLambdaV4EnvDef_def cLambdaV6EnvDef_def state_tokens)
qed

lemma dispatch_already_tailored:
  assumes "known_environment s" and "environment (options s) = Some env"
  shows "dispatch (EnvDef.name env) s = (None, log (Msg_AlreadyTailored (EnvDef.name env)) s)"
  using known_environment_name [OF assms] assms(2) by (simp add: dispatch_def)

lemma dispatch_conflict:
  assumes "state = cStateLambdaWithNode4 \<or> state = cStateLambdaWithNode6"
    and "environment (options s) = Some env" and "state \<noteq> EnvDef.name env"
  shows "dispatch state s =
     (None, log (Msg_PleaseReinstall (EnvDef.name env)) (log (Msg_Conflict state) s))"
  using assms by (auto simp: dispatch_def state_tokens)

lemma dispatch_no_environment:
  "environment (options s) = None \<Longrightarrow>
     dispatch cStateNotTailored s = (Some Error_NoEnvironment, s)"
  by (simp add: dispatch_def state_tokens tailorModule_def)

lemma dispatch_name_of_undefined:
  assumes "state = cStateLambdaWithNode4 \<or> state = cStateLambdaWithNode6"
    and "environment (options s) = None"
  shows "dispatch state s = (Some TypeError_name_of_undefined, s)"
  using assms by (auto simp: dispatch_def state_tokens)

lemma dispatch_not_tailored:
  "tailorModule s = (r, t) \<Longrightarrow>
     (case dispatch cStateNotTailored s of
        (Some e, s2) \<Rightarrow> (0::nat, printResult (Some e) s2)
      | (None, s2) \<Rightarrow> (0, s2)) = (0, printResult r t)"
  by (cases r) (simp_all add: dispatch_def state_tokens)

text \<open>
  C1: with the persisted state \<open>AWS Lambda with Node 4.x\<close> and the command line
  \<open>--dryRun\<close>, which selects no environment, the run prints neither the message that
  the module is already tailored nor the conflict error: reading the name of the
  environment throws a \<open>TypeError\<close>, which the top level reports as a failed run. The
  file system is left as it was.
\<close>

theorem C1_tailored_without_environment:
  "main [''--dryRun''] (w\<lparr>state_file := RegFile True True cStateLambdaWithNode4\<rparr>) =
     (0, \<lparr> fs = w\<lparr>state_file := RegFile True True cStateLambdaWithNode4\<rparr>,
            options = \<lparr> environment = None, dryRun = True \<rparr>,
            persistedTailoringState = Some cStateLambdaWithNode4,
            console = [Msg_Error TypeError_name_of_undefined, Msg_Result True None False] \<rparr>)"
proof -
  have r: "tryReadStateFile (w\<lparr>state_file := RegFile True True cStateLambdaWithNode4\<rparr>) =
      Inr cStateLambdaWithNode4"
    by (simp add: tryReadStateFile_def)
  have s: "cStateLambdaWithNode4 \<in> set cStates" "cStateLambdaWithNode4 \<noteq> cStateUndefined"
    "cStateLambdaWithNode4 \<noteq> cStateNotTailored"
    by (simp_all add: cStates_def cStateLambdaWithNode4_def cStateUndefined_def
        cStateNotTailored_def)
  have p: "\<And>s. parseOptions [''--dryRun''] s = (None, s\<lparr>options := (options s)\<lparr>dryRun := True\<rparr>\<rparr>)"
    unfolding parseOptions_def by (simp add: processArgs_Cons del: processArgs.simps(2))
  show ?thesis
    unfolding main_def r p
    by (simp add: dispatch_def s start_def printResult_def log_def)
qed

section \<open>The dry run\<close>

lemma listFiles_console:
  "\<exists>msgs. snd (listFiles fns s) = s\<lparr>console := console s @ msgs\<rparr>"
proof (induction fns arbitrary: s)
  case Nil
  have "snd (listFiles [] s) = s\<lparr>console := console s @ []\<rparr>" by simp
  then show ?case by blast
next
  case (Cons fn fns)
  show ?case
  proof (cases "accessSync_rw (fs s) fn")
    case True
    from Cons.IH [of "log (Msg_DryRunFile fn) s"] obtain msgs where
      "snd (listFiles fns (log (Msg_DryRunFile fn) s)) =
         (log (Msg_DryRunFile fn) s)\<lparr>console := console (log (Msg_DryRunFile fn) s) @ msgs\<rparr>"
      by blast
    with True have "snd (listFiles (fn # fns) s) = s\<lparr>console := console s @ (Msg_DryRunFile fn # msgs)\<rparr>"
      by (simp add: log_def)
    then show ?thesis by blast
  next
    case False
    then have "snd (listFiles (fn # fns) s) = s\<lparr>console := console s @ []\<rparr>" by simp
    then show ?thesis by blast
  qed
qed

lemma tailorModule_dryRun:
  assumes "dryRun (options s)"
  shows "\<exists>msgs. snd (tailorModule s) = s\<lparr>console := console s @ msgs\<rparr>"
proof -
  have same: "s = s\<lparr>console := console s @ []\<rparr>" by simp
  show ?thesis
  proof (cases "environment (options s)")
    case None
    then have "snd (tailorModule s) = s" by (simp add: tailorModule_def)
    with same show ?thesis by metis
  next
    case (Some env)
    show ?thesis
    proof (cases "locateDependencyModule (fs s)")
      case (Inl e)
      with Some have "snd (tailorModule s) = s" by (simp add: tailorModule_def)
      with same show ?thesis by metis
    next
      case (Inr loc)
      obtain dependencyLocation root where loc: "loc = (dependencyLocation, root)"
        by (cases loc)
      show ?thesis
      proof (cases "scanFolder (platform (fs s)) dependencyLocation root")
        case (Inl e)
        with Some Inr loc have "snd (tailorModule s) = s" by (simp add: tailorModule_def)
        with same show ?thesis by metis
      next
        case files: (Inr allFiles)
        define s1 where "s1 = log Msg_DryRunHeader (log (Msg_Tailoring (EnvDef.name env)) s)"
        define cands where "cands = filter (deleteFilePredicate env) allFiles"
        from listFiles_console [of cands s1] obtain msgs where
          ms: "snd (listFiles cands s1) = s1\<lparr>console := console s1 @ msgs\<rparr>" by blast
        have tm: "tailorModule s =
            (case listFiles cands s1 of (Some e, s2) \<Rightarrow> (Some e, s2)
             | (None, s2) \<Rightarrow> (None, log Msg_Blank s2))"
          using Some Inr loc files assms
          by (simp add: tailorModule_def Let_def s1_def cands_def)
        obtain r s2 where l: "listFiles cands s1 = (r, s2)" by (cases "listFiles cands s1")
        with ms have s2: "s2 = s1\<lparr>console := console s1 @ msgs\<rparr>" by simp
        show ?thesis
        proof (cases r)
          case None
          with tm l s2 have "snd (tailorModule s) =
            s\<lparr>console := console s @ ([Msg_Tailoring (EnvDef.name env), Msg_DryRunHeader] @ msgs @ [Msg_Blank])\<rparr>"
            by (simp add: s1_def log_def)
          then show ?thesis by blast
        next
          case (Some e)
          with tm l s2 have "snd (tailorModule s) =
            s\<lparr>console := console s @ ([Msg_Tailoring (EnvDef.name env), Msg_DryRunHeader] @ msgs)\<rparr>"
            by (simp add: s1_def log_def)
          then show ?thesis by blast
        qed
      qed
    qed
  qed
qed

lemma printResult_fs: "fs (printResult e s) = fs s"
  unfolding printResult_def by (cases e) (simp_all add: log_fields)

lemma dispatch_dryRun_fs:
  assumes "dryRun (options s)"
  shows "fs (snd (dispatch state s)) = fs s"
proof -
  from tailorModule_dryRun [OF assms] obtain msgs where
    t: "snd (tailorModule s) = s\<lparr>console := console s @ msgs\<rparr>" by blast
  obtain r s' where rs: "tailorModule s = (r, s')" by (cases "tailorModule s")
  with t have "fs s' = fs s" by simp
  with rs show ?thesis
    unfolding dispatch_def
    by (cases r) (auto simp: log_fields printResult_def split: option.splits)
qed

text \<open>
  C5: a dry run changes nothing in the file system. The tailoring run with the dry-run
  option set returns the state it was given with lines added to the console, whatever
  the selected environment, the files beneath the module and their access rights are,
  also when the access check on a candidate throws; and a run of the program whose
  command line contains \<open>--dryRun\<close> leaves the state file, the module and the record
  of changes as they were.
\<close>

theorem C5_dry_run_changes_nothing:
  "(dryRun (options s) \<longrightarrow>
      (\<exists>msgs. snd (tailorModule s) = s\<lparr>console := console s @ msgs\<rparr>)) \<and>
   (''--dryRun'' \<in> set argv \<longrightarrow> fs (snd (main argv w)) = w)"
proof -
  have a: "dryRun (options s) \<longrightarrow>
      (\<exists>msgs. snd (tailorModule s) = s\<lparr>console := console s @ msgs\<rparr>)"
    using tailorModule_dryRun by blast
  have b: "fs (snd (main argv w)) = w" if dry: "''--dryRun'' \<in> set argv"
  proof (cases "tryReadStateFile w")
    case (Inl e)
    then show ?thesis
      by (simp add: main_def printResult_fs start_fields)
  next
    case (Inr state)
    define s0 where "s0 = (start w)\<lparr>persistedTailoringState := Some state\<rparr>"
    obtain c s1 where p: "parseOptions argv s0 = (c, s1)" by (cases "parseOptions argv s0")
    from parseOptions_fs [of argv s0] p have fs1: "fs s1 = w"
      by (simp add: s0_def start_fields)
    show ?thesis
    proof (cases c)
      case (Some code)
      with Inr p fs1 show ?thesis
        by (simp add: main_def s0_def)
    next
      case None
      with p dry have "dryRun (options s1)"
        using parseOptions_dryRun by blast
      then have d: "fs (snd (dispatch state s1)) = w"
        using dispatch_dryRun_fs fs1 by simp
      obtain r s2 where ds: "dispatch state s1 = (r, s2)" by (cases "dispatch state s1")
      with d have "fs s2 = w" by simp
      with Inr p None ds show ?thesis
        by (cases r) (simp_all add: main_def s0_def printResult_fs)
    qed
  qed
  from a b show ?thesis by blast
qed

theorem C5_dry_run_changes_nothing_witness:
  "''--dryRun'' \<in> set [''--AwsLambdaV4'', ''--dryRun''] \<and>
   fs (snd (main [''--AwsLambdaV4'', ''--dryRun''] example_world)) = example_world \<and>
   console (snd (main [''--AwsLambdaV4'', ''--dryRun''] example_world)) =
     [Msg_Tailoring ''AWS Lambda with Node 4.x'', Msg_DryRunHeader,
      Msg_DryRunFile ''/a/bin/x_48.node'',
      Msg_Error (FsError Access ''/a/bin/x_57.node''),
      Msg_Result True (Some ''AWS Lambda with Node 4.x'') False]"
proof -
  have out: "console (snd (main [''--AwsLambdaV4'', ''--dryRun''] example_world)) =
     [Msg_Tailoring ''AWS Lambda with Node 4.x'', Msg_DryRunHeader,
      Msg_DryRunFile ''/a/bin/x_48.node'',
      Msg_Error (FsError Access ''/a/bin/x_57.node''),
      Msg_Result True (Some ''AWS Lambda with Node 4.x'') False]"
    by code_simp
  from C5_dry_run_changes_nothing [of _ "[''--AwsLambdaV4'', ''--dryRun'']" example_world] out
  show ?thesis by simp
qed

section \<open>The run that deletes\<close>

lemma unlinkSync_cases:
  "unlinkSync fn s = (Some (FsError Unlink fn), s) \<or>
   (\<exists>s'. unlinkSync fn s = (None, s') \<and>
         fs_log (fs s') = fs_log (fs s) @ [Unlinked fn] \<and>
         state_file (fs s') = state_file (fs s) \<and>
         options s' = options s)"
  unfolding unlinkSync_def Let_def
  by (auto split: option.splits node.splits)

lemma deleteFiles_shape:
  "deleteFiles fns s = (r, s') \<Longrightarrow>
     \<exists>deleted.
       fs_log (fs s') = fs_log (fs s) @ map Unlinked deleted \<and>
       state_file (fs s') = state_file (fs s) \<and>
       options s' = options s \<and>
       (case r of
          None \<Rightarrow> deleted = fns
        | Some e \<Rightarrow> \<exists>fn rest. e = FsError Unlink fn \<and> fns = deleted @ fn # rest)"
proof (induction fns arbitrary: s)
  case Nil
  then have "r = None" and "s' = s" by simp_all
  then have "fs_log (fs s') = fs_log (fs s) @ map Unlinked [] \<and>
       state_file (fs s') = state_file (fs s) \<and> options s' = options s \<and>
       (case r of None \<Rightarrow> [] = [] | Some e \<Rightarrow> \<exists>fn rest. e = FsError Unlink fn \<and> [] = [] @ fn # rest)"
    by simp
  then show ?case by blast
next
  case (Cons fn fns)
  define s1 where "s1 = log (Msg_Deleting fn) s"
  have s1: "fs s1 = fs s" "options s1 = options s" by (simp_all add: s1_def log_fields)
  from unlinkSync_cases [of fn s1] show ?case
  proof
    assume u: "unlinkSync fn s1 = (Some (FsError Unlink fn), s1)"
    with Cons.prems have "r = Some (FsError Unlink fn)" and "s' = s1"
      by (simp_all add: s1_def)
    with s1 have "fs_log (fs s') = fs_log (fs s) @ map Unlinked [] \<and>
       state_file (fs s') = state_file (fs s) \<and> options s' = options s \<and>
       (case r of None \<Rightarrow> [] = fn # fns
        | Some e \<Rightarrow> \<exists>f rest. e = FsError Unlink f \<and> fn # fns = [] @ f # rest)"
      by simp
    then show ?thesis by blast
  next
    assume "\<exists>s2. unlinkSync fn s1 = (None, s2) \<and>
         fs_log (fs s2) = fs_log (fs s1) @ [Unlinked fn] \<and>
         state_file (fs s2) = state_file (fs s1) \<and> options s2 = options s1"
    then obtain s2 where u: "unlinkSync fn s1 = (None, s2)"
      and l2: "fs_log (fs s2) = fs_log (fs s1) @ [Unlinked fn]"
      and f2: "state_file (fs s2) = state_file (fs s1)" and o2: "options s2 = options s1"
      by blast
    from Cons.prems u have "deleteFiles fns s2 = (r, s')" by (simp add: s1_def)
    from Cons.IH [OF this] obtain deleted where
      d: "fs_log (fs s') = fs_log (fs s2) @ map Unlinked deleted"
        "state_file (fs s') = state_file (fs s2)" "options s' = options s2"
        "(case r of None \<Rightarrow> deleted = fns
          | Some e \<Rightarrow> \<exists>f rest. e = FsError Unlink f \<and> fns = deleted @ f # rest)"
      by blast
    from d l2 f2 o2 s1 have "fs_log (fs s') = fs_log (fs s) @ map Unlinked (fn # deleted) \<and>
       state_file (fs s') = state_file (fs s) \<and> options s' = options s \<and>
       (case r of None \<Rightarrow> fn # deleted = fn # fns
        | Some e \<Rightarrow> \<exists>f rest. e = FsError Unlink f \<and> fn # fns = (fn # deleted) @ f # rest)"
      by (cases r) auto
    then show ?thesis by blast
  qed
qed

lemma writeStateFile_regular:
  "state_file (fs s) = RegFile True True c \<Longrightarrow>
     writeStateFile state s =
       (None, s\<lparr>fs := (fs s)\<lparr>state_file := RegFile True True state,
                            fs_log := fs_log (fs s) @ [WroteState state]\<rparr>\<rparr>)"
  unfolding writeStateFile_def Let_def by simp

lemma scanFolder_error: "scanFolder pf p n = Inl e \<Longrightarrow> e \<noteq> FsError Unlink fn"
  and scanEntries_error: "scanEntries pf p es = Inl e \<Longrightarrow> e \<noteq> FsError Unlink fn"
  by (induction pf p n and pf p es rule: scanFolder_scanEntries.induct)
    (auto simp: Let_def split: sum.splits node.splits)

lemma locateDependencyModule_error:
  "locateDependencyModule w = Inl e \<Longrightarrow> e = Error_ModuleNotFound"
  unfolding locateDependencyModule_def by (auto split: option.splits if_splits)

text \<open>The three ways in which the run that deletes can end.\<close>

lemma tailorModule_run:
  assumes env: "environment (options s) = Some env"
    and nodry: "\<not> dryRun (options s)"
    and sfile: "state_file (fs s) = RegFile True True c"
    and run: "tailorModule s = (r, s')"
  shows "(r = None \<longrightarrow>
           (\<exists>loc root allFiles.
              locateDependencyModule (fs s) = Inr (loc, root) \<and>
              scanFolder (platform (fs s)) loc root = Inr allFiles \<and>
              fs_log (fs s') =
                fs_log (fs s) @ WroteState cStateUndefined #
                  map Unlinked (filter (deleteFilePredicate env) allFiles) @
                  [WroteState (EnvDef.name env)]) \<and>
           state_file (fs s') = RegFile True True (EnvDef.name env)) \<and>
         (\<forall>fn. r = Some (FsError Unlink fn) \<longrightarrow>
           (\<exists>deleted. fs_log (fs s') =
              fs_log (fs s) @ WroteState cStateUndefined # map Unlinked deleted) \<and>
           state_file (fs s') = RegFile True True cStateUndefined) \<and>
         ((\<exists>e. r = Some e \<and> (\<forall>fn. e \<noteq> FsError Unlink fn)) \<longrightarrow> fs s' = fs s) \<and>
         options s' = options s"
proof (cases "locateDependencyModule (fs s)")
  case (Inl e)
  with env run have "r = Some e" "s' = s" by (simp_all add: tailorModule_def)
  with locateDependencyModule_error [OF Inl] show ?thesis by simp
next
  case (Inr located)
  obtain loc root where located: "located = (loc, root)" by (cases located)
  show ?thesis
  proof (cases "scanFolder (platform (fs s)) loc root")
    case (Inl e)
    with env run Inr located have "r = Some e" "s' = s" by (simp_all add: tailorModule_def)
    with scanFolder_error [OF Inl] show ?thesis by simp
  next
    case files: (Inr allFiles)
    define cands where "cands = filter (deleteFilePredicate env) allFiles"
    define s1 where "s1 = log (Msg_Tailoring (EnvDef.name env)) s"
    define s2 where "s2 = s1\<lparr>fs := (fs s1)\<lparr>state_file := RegFile True True cStateUndefined,
                            fs_log := fs_log (fs s1) @ [WroteState cStateUndefined]\<rparr>\<rparr>"
    have w1: "writeStateFile cStateUndefined s1 = (None, s2)"
      unfolding s2_def using sfile by (intro writeStateFile_regular [of _ c]) (simp add: s1_def log_fields)
    obtain rd s3 where del: "deleteFiles cands s2 = (rd, s3)" by (cases "deleteFiles cands s2")
    from deleteFiles_shape [OF del] obtain deleted where
      d: "fs_log (fs s3) = fs_log (fs s2) @ map Unlinked deleted"
        "state_file (fs s3) = state_file (fs s2)" "options s3 = options s2"
        "(case rd of None \<Rightarrow> deleted = cands
          | Some e \<Rightarrow> \<exists>f rest. e = FsError Unlink f \<and> cands = deleted @ f # rest)"
      by blast
    have log2: "fs_log (fs s2) = fs_log (fs s) @ [WroteState cStateUndefined]"
      and st2: "state_file (fs s2) = RegFile True True cStateUndefined"
      and o2: "options s2 = options s"
      by (simp_all add: s2_def s1_def log_fields)
    have tm: "tailorModule s =
        (case rd of Some e \<Rightarrow> (Some e, s3) | None \<Rightarrow> writeStateFile (EnvDef.name env) s3)"
      using env Inr located files nodry w1 del
      by (simp add: tailorModule_def Let_def cands_def s1_def split: option.splits)
    show ?thesis
    proof (cases rd)
      case None
      from d(2) st2 have "state_file (fs s3) = RegFile True True cStateUndefined" by simp
      from writeStateFile_regular [OF this, of "EnvDef.name env"] tm None run
      have r: "r = None"
        and s': "s' = s3\<lparr>fs := (fs s3)\<lparr>state_file := RegFile True True (EnvDef.name env),
                            fs_log := fs_log (fs s3) @ [WroteState (EnvDef.name env)]\<rparr>\<rparr>"
        by simp_all
      from d None have "deleted = cands" by simp
      with s' d log2 o2 have "fs_log (fs s') =
            fs_log (fs s) @ WroteState cStateUndefined #
              map Unlinked (filter (deleteFilePredicate env) allFiles) @
              [WroteState (EnvDef.name env)]"
        and "state_file (fs s') = RegFile True True (EnvDef.name env)"
        and "options s' = options s"
        by (simp_all add: cands_def)
      with r Inr located files show ?thesis by simp
    next
      case (Some e)
      with tm run have r: "r = Some e" and s': "s' = s3" by simp_all
      from d(4) Some obtain f where e: "e = FsError Unlink f" by auto
      from d log2 st2 o2 s' have "fs_log (fs s') =
            fs_log (fs s) @ WroteState cStateUndefined # map Unlinked deleted"
        and "state_file (fs s') = RegFile True True cStateUndefined"
        and "options s' = options s"
        by simp_all
      with r e show ?thesis by auto
    qed
  qed
qed

text \<open>
  C2: a run that deletes (state \<open>untailored\<close>, an environment selected, no dry run)
  ends as \<open>tailorModule\<close> ends. When it succeeds, the changes it has made to the file
  system are, in this order, the state file written with \<open>undefined\<close>, every candidate
  removed, the state file written with the name of the environment: two writes, around
  the deletions. When a deletion throws, the changes are the first write and the
  deletions before the one that failed, the state file holds \<open>undefined\<close>, and every
  later run whose command line is parsed to its end (whatever environment it selects,
  or none) prints the error that asks to re-install the module and changes nothing.
\<close>

theorem C2_state_writes_bracket_deletion:
  assumes "tryReadStateFile w = Inr cStateNotTailored"
    and "parseOptions argv ((start w)\<lparr>persistedTailoringState := Some cStateNotTailored\<rparr>) = (None, p)"
    and "environment (options p) = Some env"
    and "\<not> dryRun (options p)"
    and "tailorModule p = (r, t)"
  shows "main argv w = (0, printResult r t) \<and>
    (r = None \<longrightarrow>
       (\<exists>loc root allFiles.
          locateDependencyModule w = Inr (loc, root) \<and>
          scanFolder (platform w) loc root = Inr allFiles \<and>
          fs_log (fs t) =
            fs_log w @ WroteState cStateUndefined #
              map Unlinked (filter (deleteFilePredicate env) allFiles) @
              [WroteState (EnvDef.name env)])) \<and>
    (\<forall>fn. r = Some (FsError Unlink fn) \<longrightarrow>
       (\<exists>deleted. fs_log (fs t) = fs_log w @ WroteState cStateUndefined # map Unlinked deleted) \<and>
       state_file (fs t) = RegFile True True cStateUndefined \<and>
       (\<forall>argv' q.
          parseOptions argv' ((start (fs t))\<lparr>persistedTailoringState := Some cStateUndefined\<rparr>)
            = (None, q) \<longrightarrow>
          main argv' (fs t) = (0, log Msg_UndefinedState q) \<and> fs q = fs t \<and> console q = []))"
proof -
  note p = parsed_state [OF assms(2)]
  from assms(1) have sf: "state_file (fs p) = RegFile True True cStateNotTailored"
    by (simp add: tryReadStateFile_Inr p(1))
  note tm = tailorModule_run [OF assms(3) assms(4) sf assms(5), unfolded p(1)]
  have a: "main argv w = (0, printResult r t)"
    unfolding main_parsed [OF assms(1) assms(2)] using assms(5) by (rule dispatch_not_tailored)
  have b: "r = None \<longrightarrow>
       (\<exists>loc root allFiles.
          locateDependencyModule w = Inr (loc, root) \<and>
          scanFolder (platform w) loc root = Inr allFiles \<and>
          fs_log (fs t) =
            fs_log w @ WroteState cStateUndefined #
              map Unlinked (filter (deleteFilePredicate env) allFiles) @
              [WroteState (EnvDef.name env)])"
    using tm by blast
  have c: "(\<exists>deleted. fs_log (fs t) = fs_log w @ WroteState cStateUndefined # map Unlinked deleted) \<and>
       state_file (fs t) = RegFile True True cStateUndefined \<and>
       (\<forall>argv' q.
          parseOptions argv' ((start (fs t))\<lparr>persistedTailoringState := Some cStateUndefined\<rparr>)
            = (None, q) \<longrightarrow>
          main argv' (fs t) = (0, log Msg_UndefinedState q) \<and> fs q = fs t \<and> console q = [])"
    if r: "r = Some (FsError Unlink fn)" for fn
  proof -
    from tm r have l: "\<exists>deleted. fs_log (fs t) = fs_log w @ WroteState cStateUndefined # map Unlinked deleted"
      and st: "state_file (fs t) = RegFile True True cStateUndefined"
      by blast+
    from st have rd: "tryReadStateFile (fs t) = Inr cStateUndefined"
      by (simp add: tryReadStateFile_Inr)
    have "main argv' (fs t) = (0, log Msg_UndefinedState q) \<and> fs q = fs t \<and> console q = []"
      if q: "parseOptions argv' ((start (fs t))\<lparr>persistedTailoringState := Some cStateUndefined\<rparr>)
            = (None, q)" for argv' q
      using main_parsed [OF rd q] parsed_state(1,2) [OF q] by (simp add: dispatch_undefined)
    with l st show ?thesis by blast
  qed
  from a b c show ?thesis by blast
qed

theorem C2_state_writes_bracket_deletion_witness:
  "console (snd (main [''--AwsLambdaV4''] example_world)) =
     [Msg_Tailoring ''AWS Lambda with Node 4.x'',
      Msg_Deleting ''/a/bin/x_48.node'',
      Msg_Deleting ''/a/bin/x_57.node'',
      Msg_Error (FsError Unlink ''/a/bin/x_57.node''),
      Msg_Result False (Some ''AWS Lambda with Node 4.x'') False] \<and>
   fs_log (fs (snd (main [''--AwsLambdaV4''] example_world))) =
     [WroteState ''undefined'', Unlinked ''/a/bin/x_48.node''] \<and>
   state_file (fs (snd (main [''--AwsLambdaV4''] example_world))) =
     RegFile True True cStateUndefined \<and>
   console (snd (main [''--AwsLambdaV6''] (fs (snd (main [''--AwsLambdaV4''] example_world))))) =
     [Msg_UndefinedState]"
proof -
  define s0 where "s0 = (start example_world)\<lparr>persistedTailoringState := Some cStateNotTailored\<rparr>"
  define p where "p = s0\<lparr>options := (options s0)\<lparr>environment := Some cLambdaV4EnvDef\<rparr>\<rparr>"
  define t where "t = snd (tailorModule p)"
  define s1 where "s1 = (start (fs t))\<lparr>persistedTailoringState := Some cStateUndefined\<rparr>"
  define q where "q = s1\<lparr>options := (options s1)\<lparr>environment := Some cLambdaV6EnvDef\<rparr>\<rparr>"
  have out: "console (snd (main [''--AwsLambdaV4''] example_world)) =
     [Msg_Tailoring ''AWS Lambda with Node 4.x'',
      Msg_Deleting ''/a/bin/x_48.node'',
      Msg_Deleting ''/a/bin/x_57.node'',
      Msg_Error (FsError Unlink ''/a/bin/x_57.node''),
      Msg_Result False (Some ''AWS Lambda with Node 4.x'') False]"
    by code_simp
  have lg: "fs_log (fs (snd (main [''--AwsLambdaV4''] example_world))) =
     [WroteState ''undefined'', Unlinked ''/a/bin/x_48.node'']"
    by code_simp
  have h1: "tryReadStateFile example_world = Inr cStateNotTailored"
    by (simp add: tryReadStateFile_def example_world_def)
  have h2: "parseOptions [''--AwsLambdaV4''] s0 = (None, p)"
    unfolding p_def by (rule parseOptions_examples)
  have h3: "environment (options p) = Some cLambdaV4EnvDef"
    and h4: "\<not> dryRun (options p)"
    by (simp_all add: p_def s0_def start_def)
  have "fst (tailorModule
          ((start example_world)\<lparr>persistedTailoringState := Some cStateNotTailored,
             options := \<lparr> environment = Some cLambdaV4EnvDef, dryRun = False \<rparr>\<rparr>)) =
        Some (FsError Unlink ''/a/bin/x_57.node'')"
    by code_simp
  moreover have "p = (start example_world)\<lparr>persistedTailoringState := Some cStateNotTailored,
             options := \<lparr> environment = Some cLambdaV4EnvDef, dryRun = False \<rparr>\<rparr>"
    by (simp add: p_def s0_def start_def)
  ultimately have h5: "tailorModule p = (Some (FsError Unlink ''/a/bin/x_57.node''), t)"
    unfolding t_def by (metis prod.collapse)
  have h6: "parseOptions [''--AwsLambdaV6''] s1 = (None, q)"
    unfolding q_def by (rule parseOptions_examples)
  note c2 = C2_state_writes_bracket_deletion [OF h1 h2 [unfolded s0_def] h3 h4 h5]
  from c2 have m: "main [''--AwsLambdaV4''] example_world =
      (0, printResult (Some (FsError Unlink ''/a/bin/x_57.node'')) t)"
    by blast
  then have f: "fs (snd (main [''--AwsLambdaV4''] example_world)) = fs t"
    by (simp add: printResult_fs)
  from c2 have st: "state_file (fs t) = RegFile True True cStateUndefined"
    by blast
  from c2 h6 [unfolded s1_def] have "main [''--AwsLambdaV6''] (fs t) = (0, log Msg_UndefinedState q) \<and> console q = []"
    by blast
  then have "console (snd (main [''--AwsLambdaV6''] (fs t))) = [Msg_UndefinedState]"
    by (simp add: log_fields)
  with out lg st f show ?thesis by simp
qed

text \<open>
  C6: after a run that deletes has succeeded for an environment, a run whose command
  line selects the same environment (and is parsed to its end) prints that the module
  is already tailored for it and nothing else, ends with code 0 and leaves the file
  system as the first run left it: no file removed, no state written, the state file
  still holding the name of the environment.
\<close>

theorem C6_second_run_is_noop:
  assumes "tryReadStateFile w = Inr cStateNotTailored"
    and "parseOptions argv ((start w)\<lparr>persistedTailoringState := Some cStateNotTailored\<rparr>) = (None, p)"
    and "environment (options p) = Some env"
    and "\<not> dryRun (options p)"
    and "tailorModule p = (None, t)"
    and "parseOptions argv' ((start (fs t))\<lparr>persistedTailoringState := Some (EnvDef.name env)\<rparr>)
           = (None, q)"
    and "environment (options q) = Some env"
  shows "main argv w = (0, printResult None t) \<and>
         state_file (fs t) = RegFile True True (EnvDef.name env) \<and>
         main argv' (fs (snd (main argv w))) = (0, log (Msg_AlreadyTailored (EnvDef.name env)) q) \<and>
         console (snd (main argv' (fs (snd (main argv w))))) = [Msg_AlreadyTailored (EnvDef.name env)] \<and>
         fs (snd (main argv' (fs (snd (main argv w))))) = fs (snd (main argv w))"
proof -
  note p = parsed_state [OF assms(2)]
  note q = parsed_state [OF assms(6)]
  from assms(1) have sf: "state_file (fs p) = RegFile True True cStateNotTailored"
    by (simp add: tryReadStateFile_Inr p(1))
  from tailorModule_run [OF assms(3) assms(4) sf assms(5)]
  have st: "state_file (fs t) = RegFile True True (EnvDef.name env)" by simp
  then have rd: "tryReadStateFile (fs t) = Inr (EnvDef.name env)"
    by (simp add: tryReadStateFile_Inr)
  have a: "main argv w = (0, printResult None t)"
    unfolding main_parsed [OF assms(1) assms(2)] using assms(5) by (rule dispatch_not_tailored)
  then have f: "fs (snd (main argv w)) = fs t" by (simp add: printResult_fs)
  have b: "main argv' (fs t) = (0, log (Msg_AlreadyTailored (EnvDef.name env)) q)"
    unfolding main_parsed [OF rd assms(6)]
    by (simp add: dispatch_already_tailored [OF q(3) assms(7)])
  from a st b f q(1,2) show ?thesis by (simp add: log_fields)
qed

theorem C6_second_run_is_noop_witness:
  "console (snd (main [''--AwsLambdaV4'']
      (example_world\<lparr>sibling_module :=
         Some (Dir [(''x_46.node'', File True True True), (''x_48.node'', File True True True)])\<rparr>))) =
     [Msg_Tailoring ''AWS Lambda with Node 4.x'',
      Msg_Deleting ''/a/x_48.node'',
      Msg_Result False (Some ''AWS Lambda with Node 4.x'') True] \<and>
   console (snd (main [''--dryRun'', ''--AwsLambdaV4'']
     (fs (snd (main [''--AwsLambdaV4'']
       (example_world\<lparr>sibling_module :=
         Some (Dir [(''x_46.node'', File True True True), (''x_48.node'', File True True True)])\<rparr>)))))) =
     [Msg_AlreadyTailored ''AWS Lambda with Node 4.x''] \<and>
   fs (snd (main [''--dryRun'', ''--AwsLambdaV4'']
     (fs (snd (main [''--AwsLambdaV4'']
       (example_world\<lparr>sibling_module :=
         Some (Dir [(''x_46.node'', File True True True), (''x_48.node'', File True True True)])\<rparr>)))))) =
   fs (snd (main [''--AwsLambdaV4'']
       (example_world\<lparr>sibling_module :=
         Some (Dir [(''x_46.node'', File True True True), (''x_48.node'', File True True True)])\<rparr>)))"
proof -
  define w where "w = example_world\<lparr>sibling_module :=
         Some (Dir [(''x_46.node'', File True True True), (''x_48.node'', File True True True)])\<rparr>"
  define s0 where "s0 = (start w)\<lparr>persistedTailoringState := Some cStateNotTailored\<rparr>"
  define p where "p = s0\<lparr>options := (options s0)\<lparr>environment := Some cLambdaV4EnvDef\<rparr>\<rparr>"
  define t where "t = snd (tailorModule p)"
  define s1 where "s1 = (start (fs t))\<lparr>persistedTailoringState := Some (EnvDef.name cLambdaV4EnvDef)\<rparr>"
  define q where "q = s1\<lparr>options := (options s1)\<lparr>dryRun := True, environment := Some cLambdaV4EnvDef\<rparr>\<rparr>"
  have out: "console (snd (main [''--AwsLambdaV4'']
      (example_world\<lparr>sibling_module :=
         Some (Dir [(''x_46.node'', File True True True), (''x_48.node'', File True True True)])\<rparr>))) =
     [Msg_Tailoring ''AWS Lambda with Node 4.x'',
      Msg_Deleting ''/a/x_48.node'',
      Msg_Result False (Some ''AWS Lambda with Node 4.x'') True]"
    by code_simp
  have h1: "tryReadStateFile w = Inr cStateNotTailored"
    by (simp add: tryReadStateFile_def example_world_def w_def)
  have h2: "parseOptions [''--AwsLambdaV4''] s0 = (None, p)"
    unfolding p_def by (rule parseOptions_examples)
  have h3: "environment (options p) = Some cLambdaV4EnvDef"
    and h4: "\<not> dryRun (options p)"
    by (simp_all add: p_def s0_def start_def)
  have "fst (tailorModule
          ((start (example_world\<lparr>sibling_module :=
              Some (Dir [(''x_46.node'', File True True True), (''x_48.node'', File True True True)])\<rparr>))
           \<lparr>persistedTailoringState := Some cStateNotTailored,
             options := \<lparr> environment = Some cLambdaV4EnvDef, dryRun = False \<rparr>\<rparr>)) = None"
    by code_simp
  moreover have "p = (start (example_world\<lparr>sibling_module :=
              Some (Dir [(''x_46.node'', File True True True), (''x_48.node'', File True True True)])\<rparr>))
           \<lparr>persistedTailoringState := Some cStateNotTailored,
             options := \<lparr> environment = Some cLambdaV4EnvDef, dryRun = False \<rparr>\<rparr>"
    by (simp add: p_def s0_def start_def w_def)
  ultimately have h5: "tailorModule p = (None, t)"
    unfolding t_def by (metis prod.collapse)
  have h6: "parseOptions [''--dryRun'', ''--AwsLambdaV4''] s1 = (None, q)"
    unfolding q_def by (rule parseOptions_examples)
  have h7: "environment (options q) = Some cLambdaV4EnvDef"
    by (simp add: q_def)
  note c6 = C6_second_run_is_noop [OF h1 h2 [unfolded s0_def] h3 h4 h5 h6 [unfolded s1_def] h7]
  have nm: "EnvDef.name cLambdaV4EnvDef = ''AWS Lambda with Node 4.x''"
    by (simp add: cLambdaV4EnvDef_def cStateLambdaWithNode4_def)
  from c6 have e1: "console (snd (main [''--dryRun'', ''--AwsLambdaV4''] (fs (snd (main [''--AwsLambdaV4''] w))))) =
      [Msg_AlreadyTailored (EnvDef.name cLambdaV4EnvDef)]"
    and e2: "fs (snd (main [''--dryRun'', ''--AwsLambdaV4''] (fs (snd (main [''--AwsLambdaV4''] w))))) =
      fs (snd (main [''--AwsLambdaV4''] w))"
    by blast+
  show ?thesis
    using out e1 [unfolded w_def nm] e2 [unfolded w_def] by (intro conjI)
qed

section \<open>Paths on win32\<close>













lemma scanFolder_posix_aux:
  "pf = Posix \<Longrightarrow> scanFolder pf p n = Inr files \<Longrightarrow> files = raw_paths pf p n"
  and scanEntries_posix_aux:
  "pf = Posix \<Longrightarrow> scanEntries pf p es = Inr files \<Longrightarrow> files = raw_entry_paths pf p es"
proof (induction pf p n and pf p es arbitrary: files and files
    rule: scanFolder_scanEntries.induct)
  case (1 pf folderName entries)
  from "1.prems" obtain listed where l: "scanEntries pf folderName entries = Inr listed"
    and f: "files = listed"
    by (auto split: sum.splits)
  from "1.IH" [OF "1.prems"(1) l] f show ?case by simp
next
  case (2 pf folderName r w d)
  then show ?case by simp
next
  case (3 pf folderName)
  then show ?case by simp
next
  case (4 pf folderName)
  then show ?case by simp
next
  case (5 pf folderName)
  then show ?case by simp
next
  case (6 pf folderName)
  then show ?case by simp
next
  case (7 pf folderName nm n entries)
  define e where "e = path_join pf folderName nm"
  note run = "7.prems"(2)
  show ?case
  proof (cases n)
    case (File r w d)
    from run File obtain listed where l: "scanEntries pf folderName entries = Inr listed"
      and f: "files = e # listed"
      by (auto simp: Let_def e_def split: sum.splits)
    from "7.IH"(1) [OF e_def File "7.prems"(1) l] f File show ?thesis
      by (simp add: e_def)
  next
    case (Dir sub)
    from run Dir obtain found listed where s: "scanFolder pf e n = Inr found"
      and l: "scanEntries pf folderName entries = Inr listed"
      and f: "files = found @ listed"
      by (auto simp: Let_def e_def split: sum.splits)
    from "7.IH"(2) [OF e_def Dir "7.prems"(1) s]
    have a: "found = raw_paths pf e n" .
    from "7.IH"(3) [OF e_def Dir s "7.prems"(1) l]
    have b: "listed = raw_entry_paths pf folderName entries" .
    from a b f show ?thesis
      by (simp add: e_def)
  next
    case LockedDir
    with run show ?thesis by (simp add: Let_def)
  next
    case Dangling
    with run show ?thesis by (simp add: Let_def)
  next
    case Special
    from run Special have l: "scanEntries pf folderName entries = Inr files"
      by (simp add: Let_def)
    from "7.IH"(6) [OF e_def Special "7.prems"(1) l] Special show ?thesis
      by simp
  qed
qed

lemma scanFolder_posix:
  "scanFolder Posix p n = Inr files \<Longrightarrow> files = raw_paths Posix p n"
  by (rule scanFolder_posix_aux) simp_all



end
